theory Spec2Isabelle
  imports Complex_Main "HOL-Library.Log_Nat"
begin

section \<open>Data model\<close>

text \<open>
  The program is a small trading assistant written against the \<open>tinvest\<close> brokerage
  client. The client is an external collaborator: its schema classes are modelled as
  records holding the fields the program reads, its enumerations as datatypes holding the
  members the program names, and its network calls as the fields of a \<open>Gateway\<close> record.

  A Python float is modelled by the rational number it stands for. Every sum,
  difference and quotient the program computes is rounded to the nearest binary64 number
  by \<open>double\<close> (section \<open>Floating point\<close>), as the hardware does. Infinities and
  NaN are not modelled: the model is the program on quotes and prices whose arithmetic
  stays below the largest binary64 number.
\<close>

datatype OperationType = Buy | Sell

datatype Currency = Rub | Usd | OtherCurrency string

datatype OperationStatus = Done | Decline | Progress

text \<open>
  The type of an entry of the trade history. The library's enumeration for it has the
  members \<open>Buy\<close> and \<open>Sell\<close> and many more (commissions, taxes, dividends, pay-ins);
  the program compares an entry's type only with \<open>OperationType.buy\<close>, so every other
  member is kept by its name.
\<close>

datatype OperationTypeWithCommission = TradeBuy | TradeSell | OtherOperation string

text \<open>
  The exceptions the program can raise: the two it raises itself (\<open>Exception(status_code)\<close>
  in \<open>get_price\<close>, \<open>Exception(message)\<close> in the two loops) and the ones the Python
  runtime raises on a zero divisor, on arithmetic or attribute access on \<open>None\<close>, on
  an index out of range, and on a call nested deeper than the interpreter's recursion
  limit.
\<close>

datatype error =
    StatusException nat
  | MessageException string
  | ZeroDivisionError
  | TypeError
  | AttributeError
  | IndexError
  | RecursionError

record OrderResponse =
  quantity :: int
  price :: rat

record Orderbook =
  ob_asks :: "OrderResponse list"
  ob_bids :: "OrderResponse list"
  ob_last_price :: "rat option"
  ob_close_price :: "rat option"
  ob_min_price_increment :: rat

record SearchMarketInstrument =
  smi_ticker :: string
  smi_currency :: Currency
  smi_min_price_increment :: rat

record MarketInstrument =
  mi_figi :: string
  mi_ticker :: string
  mi_currency :: Currency

record Order =
  order_id :: string
  order_figi :: string
  order_operation :: OperationType
  order_price :: rat
  order_requested_lots :: int

record Operation =
  op_figi :: string
  op_status :: OperationStatus
  op_operation_type :: OperationTypeWithCommission

record LimitOrderRequest =
  lor_price :: rat
  lots :: int
  operation :: OperationType

record 'a Response =
  status_code :: nat
  payload :: 'a

text \<open>
  \<open>class CompanyData\<close>. \<open>last_price\<close> and \<open>close_price\<close> may be \<open>None\<close>:
  \<open>is_changed\<close> tests for it.
\<close>

record CompanyData =
  figi :: string
  ticker :: string
  ask :: OrderResponse
  bid :: OrderResponse
  currency :: Currency
  last_price :: "rat option"
  minPriceIncrement :: rat
  close_price :: "rat option"

subsection \<open>The brokerage gateway and the state of the world\<close>

text \<open>
  Every network call is a field of the gateway. Its first argument is the number of
  requests made before it, so that the same request may be answered differently at
  different times (a throttled call that succeeds when retried, a quote that moves).
\<close>

record Gateway =
  market_orderbook_get :: "nat \<Rightarrow> string \<Rightarrow> Orderbook Response"
  market_search_by_figi_get :: "nat \<Rightarrow> string \<Rightarrow> SearchMarketInstrument Response"
  orders_get :: "nat \<Rightarrow> Order list Response"
  orders_cancel_post :: "nat \<Rightarrow> string \<Rightarrow> nat"
  orders_limit_order_post :: "nat \<Rightarrow> string \<Rightarrow> LimitOrderRequest \<Rightarrow> nat"
  operations_get :: "nat \<Rightarrow> string \<Rightarrow> Operation list Response"

text \<open>The requests that change the account, in the order the program sends them.\<close>

datatype Request =
    Cancel string
  | Post string LimitOrderRequest

record World =
  calls :: nat
  requests :: "Request list"
  slept :: "nat list"

definition called :: "World \<Rightarrow> World" where
  "called w = w\<lparr>calls := calls w + 1\<rparr>"

definition send :: "Request \<Rightarrow> World \<Rightarrow> World" where
  "send r w = w\<lparr>calls := calls w + 1, requests := requests w @ [r]\<rparr>"

definition sleep :: "nat \<Rightarrow> World \<Rightarrow> World" where
  "sleep n w = w\<lparr>slept := slept w @ [n]\<rparr>"

section \<open>The program\<close>

subsection \<open>Floating point\<close>

text \<open>
  \<open>double x\<close> is the binary64 number nearest to \<open>x\<close>, a tie going to the even
  significand: \<open>x\<close> is scaled by the power of two that brings it into 53 bits (never
  finer than \<open>2 ^ -1074\<close>, the spacing of the subnormal numbers), rounded to an integer
  and scaled back. \<open>ilog2 x\<close> is the integer part of the binary logarithm of a positive
  \<open>x\<close>: the bit lengths of numerator and denominator give it up to one.
\<close>

definition pow2 :: "int \<Rightarrow> rat" where
  "pow2 e = (if 0 \<le> e then 2 ^ nat e else 1 / 2 ^ nat (- e))"

definition ilog2 :: "rat \<Rightarrow> int" where
  "ilog2 x =
     (case quotient_of x of
        (p, q) \<Rightarrow> (let e = bitlen p - bitlen q in if pow2 e \<le> x then e else e - 1))"

definition nearest_even :: "rat \<Rightarrow> int" where
  "nearest_even y =
     (let f = \<lfloor>y\<rfloor>;
          d = y - of_int f
      in if d < 1 / 2 then f
         else if 1 / 2 < d then f + 1
         else if even f then f
         else f + 1)"

definition double :: "rat \<Rightarrow> rat" where
  "double x =
     (if x = 0 then 0
      else (let e = max (ilog2 \<bar>x\<bar>) (- 1022);
                u = pow2 (e - 52)
            in sgn x * of_int (nearest_even (\<bar>x\<bar> / u)) * u))"

subsection \<open>Rounding\<close>

text \<open>
  Python's \<open>round(x, ndigits)\<close> on a float: the exact value of \<open>x\<close> is rounded to the
  nearest multiple of \<open>10 ^ -ndigits\<close>, a tie going to the even one, and the float
  nearest to that decimal number is returned.
\<close>

definition py_round :: "rat \<Rightarrow> nat \<Rightarrow> rat" where
  "py_round x ndigits = double (of_int (nearest_even (x * 10 ^ ndigits)) / 10 ^ ndigits)"

definition round_float :: "rat \<Rightarrow> rat" where
  "round_float x = py_round x 3"

definition float_eq :: "rat \<Rightarrow> rat \<Rightarrow> bool" where
  "float_eq x y = (py_round x 3 = py_round y 3)"

subsection \<open>CompanyData\<close>

definition get_bid :: "CompanyData \<Rightarrow> rat" where
  "get_bid c = price (bid c)"

definition get_ask :: "CompanyData \<Rightarrow> rat" where
  "get_ask c = price (ask c)"

definition is_changed :: "CompanyData \<Rightarrow> bool" where
  "is_changed c =
     (case last_price c of
        None \<Rightarrow> False
      | Some l \<Rightarrow>
          (case close_price c of
             None \<Rightarrow> False
           | Some cl \<Rightarrow> round_float l \<noteq> round_float cl))"

definition get_delta :: "CompanyData \<Rightarrow> error + rat" where
  "get_delta c =
     (case close_price c of
        None \<Rightarrow> Inl TypeError
      | Some cl \<Rightarrow> Inr (double (cl - get_bid c)))"

definition get_income :: "CompanyData \<Rightarrow> error + rat" where
  "get_income c =
     (case get_delta c of
        Inl e \<Rightarrow> Inl e
      | Inr delta \<Rightarrow>
          (case last_price c of
             None \<Rightarrow> Inl TypeError
           | Some l \<Rightarrow>
               if l = 0 then Inl ZeroDivisionError
               else Inr (round_float (double (delta / l)))))"

subsection \<open>Fetching quotes\<close>

definition get_price :: "Gateway \<Rightarrow> string \<Rightarrow> World \<Rightarrow> (error + Orderbook) \<times> World" where
  "get_price gw fg w =
     (let info = market_orderbook_get gw (calls w) fg;
          w1 = called w
      in if status_code info = 200 then
           (let stock_info = payload info;
                stock_info =
                  (if length (ob_asks stock_info) = 0
                   then stock_info\<lparr>ob_asks := ob_asks stock_info @ [\<lparr>quantity = 0, price = 0\<rparr>]\<rparr>
                   else stock_info);
                stock_info =
                  (if length (ob_bids stock_info) = 0
                   then stock_info\<lparr>ob_bids := ob_bids stock_info @ [\<lparr>quantity = 0, price = 10000\<rparr>]\<rparr>
                   else stock_info)
            in (Inr stock_info, w1))
         else (Inl (StatusException (status_code info)), w1))"

text \<open>\<open>xs[0]\<close>, which raises on the empty list.\<close>

definition first :: "'a list \<Rightarrow> error + 'a" where
  "first xs = (case xs of [] \<Rightarrow> Inl IndexError | x # _ \<Rightarrow> Inr x)"

text \<open>
  The constructor call shared by \<open>get_info_by_figi\<close> and \<open>create_company\<close>: it reads
  \<open>asks[0]\<close> and \<open>bids[0]\<close> of the order book.
\<close>

definition make_company ::
  "string \<Rightarrow> string \<Rightarrow> Currency \<Rightarrow> rat \<Rightarrow> Orderbook \<Rightarrow> error + CompanyData" where
  "make_company fg tk cur incr prices =
     (case first (ob_asks prices) of
        Inl e \<Rightarrow> Inl e
      | Inr a \<Rightarrow>
          (case first (ob_bids prices) of
             Inl e \<Rightarrow> Inl e
           | Inr b \<Rightarrow>
               Inr \<lparr>figi = fg, ticker = tk, ask = a, bid = b, currency = cur,
                    last_price = ob_last_price prices, minPriceIncrement = incr,
                    close_price = ob_close_price prices\<rparr>))"

definition get_info_by_figi ::
  "Gateway \<Rightarrow> string \<Rightarrow> World \<Rightarrow> (error + CompanyData option) \<times> World" where
  "get_info_by_figi gw fg w =
     (let response = market_search_by_figi_get gw (calls w) fg;
          w1 = called w
      in if status_code response = 200 then
           (let cmp_info = payload response
            in case get_price gw fg w1 of
                 (Inl e, w2) \<Rightarrow> (Inl e, w2)
               | (Inr prices, w2) \<Rightarrow>
                   (case make_company fg (smi_ticker cmp_info) (smi_currency cmp_info)
                           (smi_min_price_increment cmp_info) prices of
                      Inl e \<Rightarrow> (Inl e, w2)
                    | Inr c \<Rightarrow> (Inr (Some c), w2)))
         else (Inr None, w1))"

text \<open>
  \<open>create_company\<close> calls itself after a sleep of 60 for as long as the quote fetch
  raises \<open>Exception(429)\<close>, the only exception here whose \<open>str\<close> is \<open>"429"\<close>. Any
  other exception is swallowed and answered with Python's \<open>None\<close>. Every retry is one
  call deeper on the interpreter's stack. \<open>stack\<close> is the number of nested calls of
  \<open>create_company\<close> the stack still admits together with the calls a fetch makes
  beneath it (the recursion limit is 1000 by default): once it is used up, the fetch
  raises \<open>RecursionError\<close> inside the \<open>try\<close> before any request is sent, and that
  exception is swallowed like the others.
\<close>

fun create_company ::
  "Gateway \<Rightarrow> nat \<Rightarrow> MarketInstrument \<Rightarrow> World \<Rightarrow> CompanyData option \<times> World" where
  "create_company gw 0 bond w = (None, w)"
| "create_company gw (Suc stack) bond w =
     (case get_price gw (mi_figi bond) w of
        (Inr stock_info, w1) \<Rightarrow>
          (case make_company (mi_figi bond) (mi_ticker bond) (mi_currency bond)
                  (ob_min_price_increment stock_info) stock_info of
             Inr c \<Rightarrow> (Some c, w1)
           | Inl e \<Rightarrow>
               if e = StatusException 429 then create_company gw stack bond (sleep 60 w1)
               else (None, w1))
      | (Inl e, w1) \<Rightarrow>
          if e = StatusException 429 then create_company gw stack bond (sleep 60 w1)
          else (None, w1))"

subsection \<open>Screening\<close>

text \<open>
  \<open>USD_TO_RUB\<close> comes from the program's \<open>constants\<close> module and is a parameter here.
  The disjunction is evaluated left to right and stops at the first true disjunct, so
  \<open>get_income\<close> is not evaluated when the price exceeds the cap.
\<close>

definition py_div :: "rat option \<Rightarrow> rat \<Rightarrow> error + rat" where
  "py_div x y =
     (case x of
        None \<Rightarrow> Inl TypeError
      | Some a \<Rightarrow> if y = 0 then Inl ZeroDivisionError else Inr (double (a / y)))"

text \<open>
  The last four lines of \<open>is_valid_company\<close>, on the normalised price \<open>value\<close>
  (\<open>None\<close> when \<open>last_price\<close> is, and then the comparison raises).
\<close>

definition gates :: "CompanyData \<Rightarrow> rat option \<Rightarrow> bool \<Rightarrow> rat \<Rightarrow> rat \<Rightarrow> error + bool" where
  "gates company val changed min_income max_price =
     (case val of
        None \<Rightarrow> Inl TypeError
      | Some v \<Rightarrow>
          if max_price < v then Inr False
          else
            (case get_income company of
               Inl e \<Rightarrow> Inl e
             | Inr income \<Rightarrow>
                 if income < min_income \<or> (changed \<and> \<not> is_changed company)
                 then Inr False
                 else Inr True))"

definition is_valid_company ::
  "rat \<Rightarrow> CompanyData \<Rightarrow> bool \<Rightarrow> rat \<Rightarrow> rat \<Rightarrow> error + bool" where
  "is_valid_company USD_TO_RUB company changed min_income max_price =
     (if currency company = Rub then
        (case py_div (last_price company) USD_TO_RUB of
           Inl e \<Rightarrow> Inl e
         | Inr v \<Rightarrow> gates company (Some v) changed min_income max_price)
      else if currency company = Usd then
        gates company (last_price company) changed min_income max_price
      else Inr False)"

subsection \<open>Placing orders\<close>

text \<open>
  Both functions format \<open>company.get_income()\<close> into a message before anything is sent
  (the argument of \<open>print_log\<close> is evaluated whether or not debugging is on), so an
  income that cannot be computed raises before the request.
\<close>

definition create_order ::
  "Gateway \<Rightarrow> CompanyData \<Rightarrow> rat \<Rightarrow> OperationType \<Rightarrow> int \<Rightarrow> World \<Rightarrow> (error + bool) \<times> World" where
  "create_order gw company pr operation_type n w =
     (let body = \<lparr>lor_price = py_round pr 2, lots = n, operation = operation_type\<rparr>
      in case get_income company of
           Inl e \<Rightarrow> (Inl e, w)
         | Inr income \<Rightarrow>
             (let response = orders_limit_order_post gw (calls w) (figi company) body;
                  w1 = send (Post (figi company) body) w
              in (Inr (response = 200), w1)))"

definition create_limit_order ::
  "Gateway \<Rightarrow> CompanyData \<Rightarrow> OperationType \<Rightarrow> int \<Rightarrow> World \<Rightarrow> (error + bool) \<times> World" where
  "create_limit_order gw company operation_type n w =
     (let new_price =
            (if operation_type = Buy then double (get_bid company + minPriceIncrement company)
             else double (get_ask company - minPriceIncrement company))
      in case get_income company of
           Inl e \<Rightarrow> (Inl e, w)
         | Inr income \<Rightarrow> create_order gw company new_price operation_type n w)"

subsection \<open>Reconciliation: \<open>update_active_orders\<close>\<close>

text \<open>
  \<open>update_order\<close> is the body of the loop over the open orders and \<open>update_orders\<close>
  the loop; an exception ends the loop. \<open>company\<close> is \<open>None\<close> when the instrument
  search failed; reading its bid or ask then raises, whichever side the order has. The
  answer to the cancel request is never read. \<open>create_limit_order\<close> is called without
  its \<open>lots\<close> argument, which defaults to 1.
\<close>

definition update_order :: "Gateway \<Rightarrow> rat \<Rightarrow> Order \<Rightarrow> World \<Rightarrow> (error + unit) \<times> World" where
  "update_order gw min_ratio ord w =
     (case get_info_by_figi gw (order_figi ord) w of
        (Inl e, w1) \<Rightarrow> (Inl e, w1)
      | (Inr None, w1) \<Rightarrow> (Inl AttributeError, w1)
      | (Inr (Some company), w1) \<Rightarrow>
          if (order_operation ord = Buy \<and> \<not> float_eq (get_bid company) (order_price ord)) \<or>
             (order_operation ord = Sell \<and> \<not> float_eq (get_ask company) (order_price ord))
          then
            (case get_income company of
               Inl e \<Rightarrow> (Inl e, w1)
             | Inr income \<Rightarrow>
                 (let w2 = send (Cancel (order_id ord)) w1
                  in if (min_ratio < income \<and> order_operation ord = Buy) \<or>
                        (min_ratio < \<bar>income\<bar> \<and> order_operation ord = Sell)
                     then
                       (case create_limit_order gw company (order_operation ord) 1 w2 of
                          (Inl e, w3) \<Rightarrow> (Inl e, w3)
                        | (Inr created, w3) \<Rightarrow> (Inr (), w3))
                     else (Inr (), w2)))
          else (Inr (), w1))"

fun update_orders :: "Gateway \<Rightarrow> rat \<Rightarrow> Order list \<Rightarrow> World \<Rightarrow> (error + unit) \<times> World" where
  "update_orders gw min_ratio [] w = (Inr (), w)"
| "update_orders gw min_ratio (ord # orders_list) w =
     (case update_order gw min_ratio ord w of
        (Inl e, w1) \<Rightarrow> (Inl e, w1)
      | (Inr u, w1) \<Rightarrow> update_orders gw min_ratio orders_list w1)"

definition update_active_orders :: "Gateway \<Rightarrow> rat \<Rightarrow> World \<Rightarrow> (error + unit) \<times> World" where
  "update_active_orders gw min_ratio w =
     (let orders_response = orders_get gw (calls w);
          w1 = called w
      in if status_code orders_response = 200
         then update_orders gw min_ratio (payload orders_response) w1
         else (Inl (MessageException ''can't update orders''), w1))"

subsection \<open>Settlement: \<open>check_done_orders\<close>\<close>

text \<open>
  \<open>answer_operation\<close> is the body of the loop over the trade history and
  \<open>answer_operations\<close> the loop. The two time stamps sent with the history request are
  formatted from \<open>from_time\<close> and from the clock. \<open>strftime\<close> stands for
  \<open>datetime.fromtimestamp(t).strftime(time_fmt)\<close>, which raises on a time stamp the
  platform cannot represent; the history returned is whatever the gateway answers at that
  call. An entry that is not a buy is answered with a buy, whatever else it is. Here too
  \<open>create_limit_order\<close> is called with the default of 1 lot, and on \<open>None\<close> when the
  instrument search failed.
\<close>

definition mirror :: "OperationTypeWithCommission \<Rightarrow> OperationType" where
  "mirror t = (if t = TradeBuy then Sell else Buy)"

definition answer_operation :: "Gateway \<Rightarrow> Operation \<Rightarrow> World \<Rightarrow> (error + unit) \<times> World" where
  "answer_operation gw opn w =
     (if op_status opn = Done then
        (case get_info_by_figi gw (op_figi opn) w of
           (Inl e, w1) \<Rightarrow> (Inl e, w1)
         | (Inr None, w1) \<Rightarrow> (Inl AttributeError, w1)
         | (Inr (Some cmp_info), w1) \<Rightarrow>
             (case create_limit_order gw cmp_info (mirror (op_operation_type opn)) 1 w1 of
                (Inl e, w2) \<Rightarrow> (Inl e, w2)
              | (Inr created, w2) \<Rightarrow> (Inr (), w2)))
      else (Inr (), w))"

fun answer_operations :: "Gateway \<Rightarrow> Operation list \<Rightarrow> World \<Rightarrow> (error + unit) \<times> World" where
  "answer_operations gw [] w = (Inr (), w)"
| "answer_operations gw (opn # operation_list) w =
     (case answer_operation gw opn w of
        (Inl e, w1) \<Rightarrow> (Inl e, w1)
      | (Inr u, w1) \<Rightarrow> answer_operations gw operation_list w1)"

definition check_done_orders ::
  "Gateway \<Rightarrow> (rat \<Rightarrow> error + string) \<Rightarrow> rat \<Rightarrow> World \<Rightarrow> (error + unit) \<times> World" where
  "check_done_orders gw strftime from_time w =
     (case strftime from_time of
        Inl e \<Rightarrow> (Inl e, w)
      | Inr since \<Rightarrow>
          (let response = operations_get gw (calls w) since;
               w1 = called w
           in if status_code response = 200
              then answer_operations gw (payload response) w1
              else (Inl (MessageException ''Can't get operations''), w1)))"

section \<open>The specification's words\<close>

text \<open>
  Section 4.3 of the specification, in its words: the price for a buy is the best bid
  plus one tick, the price for a sell is the best ask minus one tick. It is compared
  below with the price \<open>create_limit_order\<close> sends.
\<close>

definition price_for :: "CompanyData \<Rightarrow> OperationType \<Rightarrow> rat" where
  "price_for model side =
     (case side of
        Buy \<Rightarrow> price (bid model) + minPriceIncrement model
      | Sell \<Rightarrow> price (ask model) - minPriceIncrement model)"

text \<open>
  Section 3 of the specification, in its words: \<open>delta\<close> is the close price minus the
  current bid price, the income ratio is \<open>delta / last_price\<close>; it is not evaluable
  when a price is missing or \<open>last_price\<close> is zero.
\<close>

definition income_ratio :: "CompanyData \<Rightarrow> rat option" where
  "income_ratio model =
     (case close_price model of
        None \<Rightarrow> None
      | Some cl \<Rightarrow>
          (case last_price model of
             None \<Rightarrow> None
           | Some l \<Rightarrow> if l = 0 then None else Some ((cl - price (bid model)) / l)))"



section \<open>Concrete inputs\<close>

text \<open>
  One instrument quoted 100 bid, 101 ask, last trade 128, tick 0.5, with the previous
  close \<open>cl\<close> a parameter: at a close of 116 its income ratio is
  \<open>(116 - 100) / 128 = 0.125\<close>, at a close of 84 it is \<open>- 0.125\<close>.
\<close>

definition ex_book :: "rat \<Rightarrow> Orderbook" where
  "ex_book cl =
     \<lparr>ob_asks = [\<lparr>quantity = 5, price = 101\<rparr>], ob_bids = [\<lparr>quantity = 3, price = 100\<rparr>],
      ob_last_price = Some 128, ob_close_price = Some cl, ob_min_price_increment = 1 / 2\<rparr>"

definition ex_info :: SearchMarketInstrument where
  "ex_info = \<lparr>smi_ticker = ''TCK'', smi_currency = Usd, smi_min_price_increment = 1 / 2\<rparr>"

definition ex_company :: "string \<Rightarrow> rat \<Rightarrow> CompanyData" where
  "ex_company fg cl =
     \<lparr>figi = fg, ticker = ''TCK'', ask = \<lparr>quantity = 5, price = 101\<rparr>,
      bid = \<lparr>quantity = 3, price = 100\<rparr>, currency = Usd, last_price = Some 128,
      minPriceIncrement = 1 / 2, close_price = Some cl\<rparr>"

text \<open>
  A gateway that quotes \<open>ex_book cl\<close> for every instrument and accepts every order. The
  status of a quote fetch, the list of open orders and the trade history are parameters.
\<close>

definition ex_gateway ::
  "rat \<Rightarrow> (nat \<Rightarrow> string \<Rightarrow> nat) \<Rightarrow> (nat \<Rightarrow> Order list) \<Rightarrow> Operation list \<Rightarrow> Gateway" where
  "ex_gateway cl quote_status listing history =
     \<lparr>market_orderbook_get = (\<lambda>n fg. \<lparr>status_code = quote_status n fg, payload = ex_book cl\<rparr>),
      market_search_by_figi_get = (\<lambda>n fg. \<lparr>status_code = 200, payload = ex_info\<rparr>),
      orders_get = (\<lambda>n. \<lparr>status_code = 200, payload = listing n\<rparr>),
      orders_cancel_post = (\<lambda>n oid. 200),
      orders_limit_order_post = (\<lambda>n fg body. 200),
      operations_get = (\<lambda>n t. \<lparr>status_code = 200, payload = history\<rparr>)\<rparr>"

definition w0 :: World where
  "w0 = \<lparr>calls = 0, requests = [], slept = []\<rparr>"

definition ex_bond :: MarketInstrument where
  "ex_bond = \<lparr>mi_figi = ''F'', mi_ticker = ''TCK'', mi_currency = Usd\<rparr>"

text \<open>
  The instrument \<open>F\<close> at other quotes: bid and ask both \<open>b\<close>, tick \<open>tk\<close>, last
  trade 128, previous close 116.
\<close>

definition tick_company :: "rat \<Rightarrow> rat \<Rightarrow> CompanyData" where
  "tick_company b tk =
     \<lparr>figi = ''F'', ticker = ''TCK'', ask = \<lparr>quantity = 5, price = b\<rparr>,
      bid = \<lparr>quantity = 3, price = b\<rparr>, currency = Usd, last_price = Some 128,
      minPriceIncrement = tk, close_price = Some 116\<rparr>"

text \<open>
  An instrument quoted in roubles: last trade 9100, bid 9000, previous close 10137.5, so
  its income ratio is \<open>1137.5 / 9100 = 0.125\<close>.
\<close>

definition rub_company :: CompanyData where
  "rub_company =
     \<lparr>figi = ''R'', ticker = ''RBL'', ask = \<lparr>quantity = 1, price = 9200\<rparr>,
      bid = \<lparr>quantity = 1, price = 9000\<rparr>, currency = Rub, last_price = Some 9100,
      minPriceIncrement = 1 / 2, close_price = Some (20275 / 2)\<rparr>"

text \<open>
  An open order, and a trade history: a completed buy, a pending sell, a completed sell
  and the broker's commission on the first.
\<close>

definition ex_order :: "string \<Rightarrow> string \<Rightarrow> OperationType \<Rightarrow> rat \<Rightarrow> int \<Rightarrow> Order" where
  "ex_order oid fg side pr k =
     \<lparr>order_id = oid, order_figi = fg, order_operation = side, order_price = pr,
      order_requested_lots = k\<rparr>"



section \<open>Properties\<close>

subsection \<open>Floating point and rounding\<close>

lemma double_zero: "double 0 = 0"
  by (simp add: double_def)

lemma double_one: "double 1 = 1"
  by code_simp

lemma nearest_even_close: "\<bar>of_int (nearest_even y) - y\<bar> \<le> 1 / 2"
proof -
  have "of_int \<lfloor>y\<rfloor> \<le> y" "y < of_int \<lfloor>y\<rfloor> + 1" by linarith+
  then show ?thesis by (auto simp: nearest_even_def Let_def)
qed

lemma nearest_even_tie: "\<bar>of_int (nearest_even y) - y\<bar> = 1 / 2 \<Longrightarrow> even (nearest_even y)"
proof -
  assume a: "\<bar>of_int (nearest_even y) - y\<bar> = 1 / 2"
  have "of_int \<lfloor>y\<rfloor> \<le> y" "y < of_int \<lfloor>y\<rfloor> + 1" by linarith+
  then show ?thesis using a by (auto simp: nearest_even_def Let_def split: if_splits)
qed

text \<open>
  \<open>ilog2\<close> is the integer part of the binary logarithm, and \<open>double x\<close> is a
  significand of at most 53 bits times the unit in the last place of \<open>x\<close>, within
  half a unit of \<open>x\<close>. The float written \<open>0.1\<close> is the well-known
  \<open>3602879701896397 / 2 ^ 55\<close>.
\<close>

lemma pow2_powi: "pow2 e = 2 powi e"
  by (simp add: pow2_def power_int_def inverse_eq_divide power_one_over)

lemma powi_of_int_le:
  assumes "1 \<le> b" "2 ^ nat (b - 1) \<le> (p::int)"
  shows "(2::rat) powi (b - 1) \<le> of_int p"
proof -
  have "(of_int (2 ^ nat (b - 1)) :: rat) \<le> of_int p"
    using assms(2) by (simp only: of_int_le_iff)
  then show ?thesis using assms(1) by (simp add: power_int_def)
qed

lemma powi_of_int_less:
  assumes "1 \<le> b" "(p::int) < 2 ^ nat b"
  shows "of_int p < (2::rat) powi b"
proof -
  have "(of_int p :: rat) < of_int (2 ^ nat b)"
    using assms(2) by (simp only: of_int_less_iff)
  then show ?thesis using assms(1) by (simp add: power_int_def)
qed

lemma ilog2_bounds:
  assumes "0 < x"
  shows "pow2 (ilog2 x) \<le> x \<and> x < pow2 (ilog2 x + 1)"
proof -
  obtain p q where pq: "quotient_of x = (p, q)" by force
  have q: "0 < q" using pq by (rule quotient_of_denom_pos)
  have x: "x = of_int p / of_int q" using pq by (rule quotient_of_div)
  have p: "0 < p" using assms q x by (simp add: zero_less_divide_iff)
  let ?bp = "bitlen p" and ?bq = "bitlen q"
  have bp: "2 ^ nat (?bp - 1) \<le> p" "p < 2 ^ nat ?bp"
    using bitlen_bounds [OF p] by simp_all
  have bq: "2 ^ nat (?bq - 1) \<le> q" "q < 2 ^ nat ?bq"
    using bitlen_bounds [OF q] by simp_all
  have b1: "1 \<le> ?bp" "1 \<le> ?bq" using p q by (auto simp: bitlen_alt_def)
  note rp = powi_of_int_le [OF b1(1) bp(1)] powi_of_int_less [OF b1(1) bp(2)]
  note rq = powi_of_int_le [OF b1(2) bq(1)] powi_of_int_less [OF b1(2) bq(2)]
  have pos: "(0::rat) < 2 powi k" for k by simp
  have lo: "(2::rat) powi (?bp - ?bq - 1) < x"
  proof -
    have "(2::rat) powi (?bp - ?bq - 1) = 2 powi (?bp - 1) / 2 powi ?bq"
      by (simp add: power_int_diff)
    also have "\<dots> \<le> of_int p / 2 powi ?bq"
      using rp(1) by (intro divide_right_mono) simp_all
    also have "\<dots> < of_int p / of_int q"
      using rq(2) p q by (intro divide_strict_left_mono) simp_all
    finally show ?thesis using x by simp
  qed
  have hi: "x < (2::rat) powi (?bp - ?bq + 1)"
  proof -
    have "x = of_int p / of_int q" by (rule x)
    also have "\<dots> < 2 powi ?bp / of_int q"
      using rp(2) q by (intro divide_strict_right_mono) simp_all
    also have "\<dots> \<le> 2 powi ?bp / 2 powi (?bq - 1)"
      using rq(1) q by (intro divide_left_mono) simp_all
    also have "\<dots> = 2 powi (?bp - ?bq + 1)"
      by (simp add: power_int_diff power_int_add)
    finally show ?thesis .
  qed
  show ?thesis
  proof (cases "pow2 (?bp - ?bq) \<le> x")
    case True
    then show ?thesis using hi pq by (simp add: ilog2_def Let_def pow2_powi)
  next
    case False
    then show ?thesis using lo pq by (simp add: ilog2_def Let_def pow2_powi)
  qed
qed

lemma nearest_even_mono: "y \<le> of_int k \<Longrightarrow> nearest_even y \<le> k"
proof -
  assume a: "y \<le> of_int k"
  have "(of_int (nearest_even y) :: rat) \<le> y + 1 / 2"
    using nearest_even_close [of y] by linarith
  then have "(of_int (nearest_even y) :: rat) < of_int (k + 1)"
    using a by simp
  then have "nearest_even y < k + 1" by (simp only: of_int_less_iff)
  then show ?thesis by simp
qed

lemma nearest_even_nonneg: "0 \<le> y \<Longrightarrow> 0 \<le> nearest_even y"
proof -
  assume a: "0 \<le> y"
  have "y - 1 / 2 \<le> (of_int (nearest_even y) :: rat)"
    using nearest_even_close [of y] by linarith
  then have "(of_int (- 1) :: rat) < of_int (nearest_even y)"
    using a by simp
  then have "- 1 < nearest_even y" by (simp only: of_int_less_iff)
  then show ?thesis by simp
qed

lemma double_nearest:
  assumes "x \<noteq> 0"
  shows "\<exists>m. double x = sgn x * of_int m * pow2 (max (ilog2 \<bar>x\<bar>) (- 1022) - 52) \<and>
             0 \<le> m \<and> m \<le> 2 ^ 53 \<and>
             \<bar>double x - x\<bar> \<le> pow2 (max (ilog2 \<bar>x\<bar>) (- 1022) - 52) / 2"
proof -
  let ?e = "max (ilog2 \<bar>x\<bar>) (- 1022)"
  let ?u = "pow2 (?e - 52)"
  let ?m = "nearest_even (\<bar>x\<bar> / ?u)"
  have u: "0 < ?u" by (simp add: pow2_powi)
  have d: "double x = sgn x * of_int ?m * ?u"
    using assms by (simp add: double_def Let_def)
  have ax: "0 < \<bar>x\<bar>" using assms by simp
  have "\<bar>x\<bar> < pow2 (ilog2 \<bar>x\<bar> + 1)" using ilog2_bounds [OF ax] by simp
  also have "\<dots> \<le> pow2 (?e + 1)"
    by (simp add: pow2_powi power_int_increasing)
  also have "\<dots> = 2 ^ 53 * ?u"
    by (simp add: pow2_powi power_int_diff power_int_add)
  finally have "\<bar>x\<bar> / ?u \<le> 2 ^ 53"
    using u by (simp add: pos_divide_le_eq)
  then have "\<bar>x\<bar> / ?u \<le> of_int (2 ^ 53)" by simp
  then have m2: "?m \<le> 2 ^ 53" by (rule nearest_even_mono)
  have m0: "0 \<le> ?m" using u ax by (intro nearest_even_nonneg) simp
  have sx: "sgn x * \<bar>x\<bar> = x" "\<bar>x\<bar> * sgn x = x"
    by (simp_all add: sgn_if)
  have "double x - x = sgn x * (of_int ?m * ?u - \<bar>x\<bar>)"
    unfolding d by (simp add: algebra_simps sx)
  then have "\<bar>double x - x\<bar> = \<bar>sgn x * (of_int ?m * ?u - \<bar>x\<bar>)\<bar>"
    by simp
  also have "\<dots> = \<bar>of_int ?m * ?u - \<bar>x\<bar>\<bar>"
    using assms by (simp add: abs_mult)
  also have "\<dots> = \<bar>of_int ?m - \<bar>x\<bar> / ?u\<bar> * ?u"
    using u by (simp add: field_simps abs_mult flip: abs_mult_pos)
  also have "\<dots> \<le> 1 / 2 * ?u"
    using nearest_even_close [of "\<bar>x\<bar> / ?u"] u by (intro mult_right_mono) simp_all
  finally have "\<bar>double x - x\<bar> \<le> ?u / 2" by simp
  then show ?thesis using d m0 m2 by blast
qed

lemma double_tenth: "double (1 / 10) = 3602879701896397 / 2 ^ 55"
  by code_simp

lemma py_round_decimal:
  "\<exists>d. py_round x 2 = double (of_int d / 100) \<and> \<bar>of_int d / 100 - x\<bar> \<le> 1 / 200 \<and>
       (\<bar>of_int d / 100 - x\<bar> = 1 / 200 \<longrightarrow> even d)"
proof (intro exI [of _ "nearest_even (x * 100)"] conjI impI)
  show "py_round x 2 = double (of_int (nearest_even (x * 100)) / 100)"
    by (simp add: py_round_def)
  have e: "\<bar>of_int (nearest_even (x * 100)) / 100 - x\<bar> =
        \<bar>of_int (nearest_even (x * 100)) - x * 100\<bar> / 100"
    by (simp add: field_simps abs_if)
  show "\<bar>of_int (nearest_even (x * 100)) / 100 - x\<bar> \<le> 1 / 200"
    unfolding e using nearest_even_close [of "x * 100"] by simp
  assume "\<bar>of_int (nearest_even (x * 100)) / 100 - x\<bar> = 1 / 200"
  then have "\<bar>of_int (nearest_even (x * 100)) - x * 100\<bar> = 1 / 2"
    unfolding e by simp
  then show "even (nearest_even (x * 100))" by (rule nearest_even_tie)
qed

subsection \<open>Fetching quotes\<close>

lemma get_price_ok:
  "status_code (market_orderbook_get gw (calls w) fg) = 200 \<Longrightarrow>
   \<exists>si. get_price gw fg w = (Inr si, called w) \<and>
     first (ob_asks si) =
       Inr (case ob_asks (payload (market_orderbook_get gw (calls w) fg)) of
              [] \<Rightarrow> \<lparr>quantity = 0, price = 0\<rparr> | a # x \<Rightarrow> a) \<and>
     first (ob_bids si) =
       Inr (case ob_bids (payload (market_orderbook_get gw (calls w) fg)) of
              [] \<Rightarrow> \<lparr>quantity = 0, price = 10000\<rparr> | b # x \<Rightarrow> b) \<and>
     ob_last_price si = ob_last_price (payload (market_orderbook_get gw (calls w) fg)) \<and>
     ob_close_price si = ob_close_price (payload (market_orderbook_get gw (calls w) fg)) \<and>
     ob_min_price_increment si =
       ob_min_price_increment (payload (market_orderbook_get gw (calls w) fg))"
  by (simp add: get_price_def Let_def first_def split: list.splits)

lemma get_price_fail:
  "status_code (market_orderbook_get gw (calls w) fg) \<noteq> 200 \<Longrightarrow>
   get_price gw fg w =
     (Inl (StatusException (status_code (market_orderbook_get gw (calls w) fg))), called w)"
  by (simp add: get_price_def Let_def)

lemma get_price_world: "snd (get_price gw fg w) = called w"
  by (simp add: get_price_def Let_def)

lemma get_info_by_figi_world:
  assumes "get_info_by_figi gw fg w = (r, w1)"
  shows "requests w1 = requests w \<and> slept w1 = slept w"
proof (cases "status_code (market_search_by_figi_get gw (calls w) fg) = 200")
  case True
  obtain p w2 where p: "get_price gw fg (called w) = (p, w2)" by force
  then have "w2 = called (called w)" using get_price_world [of gw fg "called w"] by simp
  then show ?thesis using assms True p
    by (auto simp: get_info_by_figi_def Let_def called_def split: sum.splits)
next
  case False
  then show ?thesis using assms by (auto simp: get_info_by_figi_def Let_def called_def)
qed

lemma get_info_by_figi_figi:
  assumes "get_info_by_figi gw fg w = (Inr (Some c), w1)"
  shows "figi c = fg"
  using assms
  by (auto simp: get_info_by_figi_def make_company_def Let_def
      split: if_splits prod.splits sum.splits)


subsection \<open>The rate-limit guard\<close>

lemma create_company_retries:
  assumes "\<forall>i<n. status_code (market_orderbook_get gw (calls w + i) (mi_figi bond)) = 429"
    and "status_code (market_orderbook_get gw (calls w + n) (mi_figi bond)) \<noteq> 429"
  shows "create_company gw stack bond w =
           (if n < stack then
              (let answer = market_orderbook_get gw (calls w + n) (mi_figi bond);
                   book = payload answer
               in if status_code answer = 200
                  then Some \<lparr>figi = mi_figi bond, ticker = mi_ticker bond,
                             ask = (case ob_asks book of
                                      [] \<Rightarrow> \<lparr>quantity = 0, price = 0\<rparr> | a # x \<Rightarrow> a),
                             bid = (case ob_bids book of
                                      [] \<Rightarrow> \<lparr>quantity = 0, price = 10000\<rparr> | b # x \<Rightarrow> b),
                             currency = mi_currency bond,
                             last_price = ob_last_price book,
                             minPriceIncrement = ob_min_price_increment book,
                             close_price = ob_close_price book\<rparr>
                  else None,
               w\<lparr>calls := calls w + n + 1, slept := slept w @ replicate n 60\<rparr>)
            else (None, w\<lparr>calls := calls w + stack, slept := slept w @ replicate stack 60\<rparr>))"
  using assms
proof (induction n arbitrary: w stack)
  case 0
  let ?s = "status_code (market_orderbook_get gw (calls w) (mi_figi bond))"
  show ?case
  proof (cases stack)
    case z: 0
    then show ?thesis by simp
  next
    case (Suc k)
    show ?thesis
    proof (cases "?s = 200")
      case True
      from get_price_ok [OF True] obtain si where
        "get_price gw (mi_figi bond) w = (Inr si, called w)"
        "first (ob_asks si) =
         Inr (case ob_asks (payload (market_orderbook_get gw (calls w) (mi_figi bond))) of
                [] \<Rightarrow> \<lparr>quantity = 0, price = 0\<rparr> | a # x \<Rightarrow> a)"
        "first (ob_bids si) =
         Inr (case ob_bids (payload (market_orderbook_get gw (calls w) (mi_figi bond))) of
                [] \<Rightarrow> \<lparr>quantity = 0, price = 10000\<rparr> | b # x \<Rightarrow> b)"
        "ob_last_price si = ob_last_price (payload (market_orderbook_get gw (calls w) (mi_figi bond)))"
        "ob_close_price si = ob_close_price (payload (market_orderbook_get gw (calls w) (mi_figi bond)))"
        "ob_min_price_increment si =
         ob_min_price_increment (payload (market_orderbook_get gw (calls w) (mi_figi bond)))"
        by blast
      then show ?thesis using True Suc
        by (simp add: make_company_def called_def Let_def)
    next
      case False
      then show ?thesis using 0 Suc get_price_fail [OF False]
        by (simp add: called_def Let_def)
    qed
  qed
next
  case (Suc n)
  show ?case
  proof (cases stack)
    case z: 0
    then show ?thesis by simp
  next
    case k: (Suc k)
    have s: "status_code (market_orderbook_get gw (calls w) (mi_figi bond)) = 429"
      using Suc.prems(1) by force
    have g: "get_price gw (mi_figi bond) w = (Inl (StatusException 429), called w)"
      using s by (simp add: get_price_def Let_def)
    let ?w = "sleep 60 (called w)"
    have c: "calls ?w = calls w + 1" by (simp add: sleep_def called_def)
    have a: "\<forall>i<n. status_code (market_orderbook_get gw (calls ?w + i) (mi_figi bond)) = 429"
      using Suc.prems(1) c by (metis Suc_eq_plus1 add_Suc_shift not_less_eq)
    have b: "status_code (market_orderbook_get gw (calls ?w + n) (mi_figi bond)) \<noteq> 429"
      using Suc.prems(2) c by simp
    have "create_company gw stack bond w = create_company gw k bond ?w"
      using g k by simp
    then show ?thesis using Suc.IH [OF a b, of k] k
      by (simp add: sleep_def called_def)
  qed
qed

text \<open>
  Claim C8 says that the guard retries without bound. The retry is a recursive call,
  and the interpreter's stack bounds the recursion: with room for 1000 nested calls, a
  fetch throttled 1000 times and answered with status 200 at the next attempt is never
  asked again. \<open>create_company\<close> returns \<open>None\<close> after 1000 sleeps.
\<close>

theorem create_company_stack_exhausted:
  "status_code
     (market_orderbook_get
        (ex_gateway 116 (\<lambda>n fg. if n < 1000 then 429 else 200) (\<lambda>n. []) []) 1000 ''F'') = 200 \<and>
   create_company (ex_gateway 116 (\<lambda>n fg. if n < 1000 then 429 else 200) (\<lambda>n. []) []) 1000
     ex_bond w0 =
     (None, \<lparr>calls = 1000, requests = [], slept = replicate 1000 60\<rparr>)"
proof -
  let ?gw = "ex_gateway 116 (\<lambda>n fg. if n < 1000 then 429 else 200) (\<lambda>n. []) []"
  have a: "\<forall>i<1000. status_code (market_orderbook_get ?gw (calls w0 + i) (mi_figi ex_bond)) = 429"
    by (simp add: ex_gateway_def w0_def)
  have b: "status_code (market_orderbook_get ?gw (calls w0 + 1000) (mi_figi ex_bond)) \<noteq> 429"
    by (simp add: ex_gateway_def w0_def)
  show ?thesis
    using create_company_retries [OF a b, of 1000]
    by (simp add: ex_gateway_def w0_def)
qed

text \<open>
  Claim C8, amended. \<open>create_company\<close> is the call wrapped by the rate-limit guard.
  If the quote fetch is throttled (status 429) on its first \<open>n\<close> attempts and answers
  anything else on the next one, and the stack admits more than \<open>n\<close> nested calls,
  \<open>create_company\<close> returns after exactly \<open>n\<close> sleeps of 60 and \<open>n + 1\<close> fetches:
  the company built from that answer when its status is 200, and \<open>None\<close> (no retry, no
  sleep for it) when it is any other failure. If the stack admits no more than \<open>n\<close>
  nested calls, it returns \<open>None\<close> after as many sleeps as the stack admits.
\<close>

theorem create_company_throttled:
  assumes "\<forall>i<n. status_code (market_orderbook_get gw (calls w + i) (mi_figi bond)) = 429"
    and "status_code (market_orderbook_get gw (calls w + n) (mi_figi bond)) \<noteq> 429"
  shows "create_company gw stack bond w =
           (if n < stack then
              (let answer = market_orderbook_get gw (calls w + n) (mi_figi bond);
                   book = payload answer
               in if status_code answer = 200
                  then Some \<lparr>figi = mi_figi bond, ticker = mi_ticker bond,
                             ask = (case ob_asks book of
                                      [] \<Rightarrow> \<lparr>quantity = 0, price = 0\<rparr> | a # x \<Rightarrow> a),
                             bid = (case ob_bids book of
                                      [] \<Rightarrow> \<lparr>quantity = 0, price = 10000\<rparr> | b # x \<Rightarrow> b),
                             currency = mi_currency bond,
                             last_price = ob_last_price book,
                             minPriceIncrement = ob_min_price_increment book,
                             close_price = ob_close_price book\<rparr>
                  else None,
               w\<lparr>calls := calls w + n + 1, slept := slept w @ replicate n 60\<rparr>)
            else (None, w\<lparr>calls := calls w + stack, slept := slept w @ replicate stack 60\<rparr>))"
  using assms by (rule create_company_retries)

text \<open>
  Throttled twice, then answered, on a stack with room for 1000 calls: two sleeps,
  three fetches, the company returned.
\<close>

theorem create_company_throttled_twice:
  "create_company (ex_gateway 116 (\<lambda>n fg. if n < 2 then 429 else 200) (\<lambda>n. []) []) 1000
     ex_bond w0 =
     (Some (ex_company ''F'' 116), \<lparr>calls = 3, requests = [], slept = [60, 60]\<rparr>)"
  using create_company_throttled
          [of 2 "ex_gateway 116 (\<lambda>n fg. if n < 2 then 429 else 200) (\<lambda>n. []) []" w0 ex_bond 1000]
  by (simp add: ex_gateway_def ex_bond_def w0_def ex_book_def ex_company_def Let_def
        numeral_2_eq_2)

subsection \<open>The screener\<close>

lemma get_income_eq:
  "get_income c =
     (case close_price c of
        None \<Rightarrow> Inl TypeError
      | Some cl \<Rightarrow>
          (case last_price c of
             None \<Rightarrow> Inl TypeError
           | Some l \<Rightarrow>
               if l = 0 then Inl ZeroDivisionError
               else Inr (py_round (double (double (cl - price (bid c)) / l)) 3)))"
  by (simp add: get_income_def get_delta_def get_bid_def round_float_def split: option.splits)

lemma get_income_ex:
  "get_income (ex_company fg 116) = Inr (1 / 8)"
  "get_income (ex_company fg 84) = Inr (- (1 / 8))"
  by code_simp+

text \<open>
  Claim C4 says that the second gate compares the income ratio with the minimum. The
  program compares the ratio rounded to 3 decimal places: at a close of 101.25, a bid of
  100 and a last price of 128 the ratio is 0.009765625, below a minimum of 0.01, yet the
  model is accepted, because the ratio rounds to 0.01.
\<close>

theorem is_valid_company_rounds_income:
  "income_ratio (ex_company ''F'' (405 / 4)) = Some (5 / 512) \<and>
   (5 / 512 :: rat) < double (1 / 100) \<and>
   is_valid_company 91 (ex_company ''F'' (405 / 4)) False (double (1 / 100)) 200 = Inr True"
  by code_simp

text \<open>
  Claim C4, amended. \<open>is_valid_company\<close> accepts a model exactly when its currency is
  the secondary one (roubles) and \<open>last_price\<close> divided by the exchange rate does not
  exceed the cap, or its currency is the reference one (dollars) and \<open>last_price\<close>
  itself does not exceed the cap; and the income ratio, computed in double precision as
  \<open>(close_price - bid) / last_price\<close> and rounded to 3 decimal places, is at least the
  minimum; and it has changed today whenever that is required. A price equal to the cap
  passes. A model in any other currency satisfies neither alternative, so it is never
  accepted.
\<close>

theorem is_valid_company_accepts_iff:
  "is_valid_company USD_TO_RUB c changed min_income max_price = Inr True \<longleftrightarrow>
     (\<exists>l cl.
        last_price c = Some l \<and> close_price c = Some cl \<and> l \<noteq> 0 \<and>
        ((currency c = Rub \<and> USD_TO_RUB \<noteq> 0 \<and> double (l / USD_TO_RUB) \<le> max_price) \<or>
         (currency c = Usd \<and> l \<le> max_price)) \<and>
        min_income \<le> py_round (double (double (cl - price (bid c)) / l)) 3 \<and>
        (changed \<longrightarrow> is_changed c))"
  by (auto simp: is_valid_company_def gates_def py_div_def get_income_eq
      split: option.splits sum.splits if_splits)

text \<open>
9100 roubles at a rate of 91 is 100, exactly the cap of 100: accepted.
\<close>

theorem is_valid_company_at_cap:
  "is_valid_company 91 rub_company True (1 / 8) 100 = Inr True"
proof -
  have "double (9100 / 91) \<le> (100 :: rat)"
    "(1 / 8 :: rat) \<le> py_round (double (double (20275 / 2 - 9000) / 9100)) 3"
    by code_simp+
  moreover have "is_changed rub_company"
    by code_simp
  moreover have "last_price rub_company = Some 9100" "currency rub_company = Rub"
    "close_price rub_company = Some (20275 / 2)" "price (bid rub_company) = 9000"
    by (simp_all add: rub_company_def)
  ultimately show ?thesis
    by (subst is_valid_company_accepts_iff,
        intro exI [of _ 9100] exI [of _ "20275 / 2"]) simp
qed

text \<open>
  Claim C6 says that a model whose \<open>last_price\<close> is zero is excluded without a
  division by zero. \<open>get_income\<close> has no such guard: for a dollar instrument under the
  cap the screener raises \<open>ZeroDivisionError\<close>.
\<close>

theorem is_valid_company_zero_last_price_raises:
  "is_valid_company 91 ((ex_company ''F'' 116)\<lparr>last_price := Some 0\<rparr>) False 0 100 =
     Inl ZeroDivisionError"
  by (simp add: is_valid_company_def gates_def get_income_def get_delta_def ex_company_def)

text \<open>
  Claim C6, amended. A model whose \<open>last_price\<close> is zero is never accepted. The screener
  returns \<open>False\<close> for it without dividing only when its currency is neither roubles
  nor dollars or the cap is negative; in every other case it raises:
  \<open>ZeroDivisionError\<close> from the division by \<open>last_price\<close> (or by a zero exchange
  rate), \<open>TypeError\<close> when the close price is missing.
\<close>

theorem is_valid_company_zero_last_price:
  assumes "last_price c = Some 0"
  shows "is_valid_company USD_TO_RUB c changed min_income max_price =
           (if currency c \<noteq> Rub \<and> currency c \<noteq> Usd then Inr False
            else if currency c = Rub \<and> USD_TO_RUB = 0 then Inl ZeroDivisionError
            else if max_price < 0 then Inr False
            else if close_price c = None then Inl TypeError
            else Inl ZeroDivisionError)"
  using assms
  by (auto simp: is_valid_company_def gates_def py_div_def get_income_def get_delta_def
        double_zero split: option.splits)

theorem is_valid_company_zero_last_price_rub:
  "is_valid_company 91 (rub_company\<lparr>last_price := Some 0\<rparr>) True (1 / 8) 100 =
     Inl ZeroDivisionError \<and>
   is_valid_company 91 (rub_company\<lparr>last_price := Some 0\<rparr>) True (1 / 8) (- 1) = Inr False"
  using is_valid_company_zero_last_price [of "rub_company\<lparr>last_price := Some 0\<rparr>" 91 True "1 / 8" 100]
        is_valid_company_zero_last_price [of "rub_company\<lparr>last_price := Some 0\<rparr>" 91 True "1 / 8" "- 1"]
  by (simp add: rub_company_def)

subsection \<open>The order pricer\<close>

lemma hundredths_near:
  assumes "\<bar>of_int d / 100 - of_int k / 200\<bar> \<le> (1 / 200 :: rat)"
  shows "k - 1 \<le> 2 * d \<and> 2 * d \<le> k + 1"
proof -
  have e: "(of_int d / 100 - of_int k / 200 :: rat) = of_int (2 * d - k) / 200"
    by (simp add: field_simps)
  have "\<bar>(of_int (2 * d - k) :: rat)\<bar> / 200 \<le> 1 / 200"
    using assms unfolding e by (simp only: abs_divide abs_numeral)
  then have "\<bar>(of_int (2 * d - k) :: rat)\<bar> \<le> 1"
    by simp
  then have "\<bar>2 * d - k\<bar> \<le> 1"
    by (metis of_int_1 of_int_abs of_int_le_iff)
  then show ?thesis by linarith
qed

lemma hundredths_between:
  assumes "\<bar>of_int d / 100 - s\<bar> \<le> (1 / 200 :: rat)"
    and "of_int k / 100 - 1 / 200 < s" and "s < of_int k / 100 + 1 / 200"
  shows "d = k"
proof -
  have "\<bar>(of_int d / 100 - of_int k / 100 :: rat)\<bar> < 1 / 100"
    using assms by linarith
  moreover have "(of_int d / 100 - of_int k / 100 :: rat) = of_int (d - k) / 100"
    by (simp add: field_simps)
  ultimately have "\<bar>(of_int (d - k) :: rat)\<bar> / 100 < 1 / 100"
    by (simp only: abs_divide abs_numeral)
  then have "\<bar>(of_int (d - k) :: rat)\<bar> < 1"
    by simp
  then have "\<bar>d - k\<bar> < 1"
    by (metis of_int_1 of_int_abs of_int_less_iff)
  then show ?thesis by linarith
qed

lemma new_price_eq:
  "(if side = Buy then double (get_bid c + minPriceIncrement c)
    else double (get_ask c - minPriceIncrement c)) = double (price_for c side)"
  by (cases side) (simp_all add: price_for_def get_bid_def get_ask_def)

lemma create_limit_order_eq:
  "create_limit_order gw c side n w =
     (case get_income c of
        Inl e \<Rightarrow> (Inl e, w)
      | Inr income \<Rightarrow>
          (Inr (orders_limit_order_post gw (calls w) (figi c)
                  \<lparr>lor_price = py_round (double (price_for c side)) 2, lots = n,
                   operation = side\<rparr> = 200),
           send (Post (figi c)
                  \<lparr>lor_price = py_round (double (price_for c side)) 2, lots = n,
                   operation = side\<rparr>) w))"
  by (simp add: create_limit_order_def create_order_def new_price_eq Let_def split: sum.splits)

text \<open>
  Claim C5. \<open>price_for\<close> is the best bid plus one tick for a buy and the best ask
  minus one tick for a sell. When \<open>create_limit_order\<close> returns, it has sent exactly one
  order, for the number of lots asked, on the side asked; its price is the float nearest
  to a whole number \<open>d\<close> of hundredths, and \<open>d / 100\<close> is the multiple of 0.01 nearest
  to the sum or difference the program computed (\<open>price_for\<close> in double precision), the
  even one of the two when both are equally near.
\<close>

theorem create_limit_order_price:
  assumes "create_limit_order gw c side n w = (Inr created, w')"
  shows "\<exists>d. requests w' =
                requests w @
                [Post (figi c)
                   \<lparr>lor_price = double (of_int d / 100), lots = n, operation = side\<rparr>] \<and>
              \<bar>of_int d / 100 - double (price_for c side)\<bar> \<le> 1 / 200 \<and>
              (\<bar>of_int d / 100 - double (price_for c side)\<bar> = 1 / 200 \<longrightarrow> even d) \<and>
              price_for c side =
                (case side of
                   Buy \<Rightarrow> get_bid c + minPriceIncrement c
                 | Sell \<Rightarrow> get_ask c - minPriceIncrement c)"
proof -
  obtain d where d: "py_round (double (price_for c side)) 2 = double (of_int d / 100)"
    "\<bar>of_int d / 100 - double (price_for c side)\<bar> \<le> 1 / 200"
    "\<bar>of_int d / 100 - double (price_for c side)\<bar> = 1 / 200 \<longrightarrow> even d"
    using py_round_decimal [of "double (price_for c side)"] by blast
  have "requests w' =
          requests w @
          [Post (figi c) \<lparr>lor_price = double (of_int d / 100), lots = n, operation = side\<rparr>]"
    using assms d(1) by (auto simp: create_limit_order_eq send_def split: sum.splits)
  moreover have "price_for c side =
                (case side of
                   Buy \<Rightarrow> get_bid c + minPriceIncrement c
                 | Sell \<Rightarrow> get_ask c - minPriceIncrement c)"
    by (cases side) (simp_all add: price_for_def get_bid_def get_ask_def)
  ultimately show ?thesis using d(2) d(3) by blast
qed

text \<open>
  A buy at best bid 100 and a sell at best ask 101, tick 0.5: both are sent at 100.5.
  A buy at best bid 100 and tick 0.125: the sum 100.125 lies halfway between 100.12 and
  100.13, and the order is sent at 100.12. A buy at best bid 1 and tick 0.005 (the float
  written so): the sum in double precision lies just below 1.005, and the order is sent
  at 1.
\<close>

theorem create_limit_order_price_examples:
  "requests (snd (create_limit_order (ex_gateway 116 (\<lambda>n fg. 200) (\<lambda>n. []) [])
                    (ex_company ''F'' 116) Buy 1 w0)) =
     [Post ''F'' \<lparr>lor_price = 201 / 2, lots = 1, operation = Buy\<rparr>] \<and>
   requests (snd (create_limit_order (ex_gateway 116 (\<lambda>n fg. 200) (\<lambda>n. []) [])
                    (ex_company ''F'' 116) Sell 1 w0)) =
     [Post ''F'' \<lparr>lor_price = 201 / 2, lots = 1, operation = Sell\<rparr>] \<and>
   requests (snd (create_limit_order (ex_gateway 116 (\<lambda>n fg. 200) (\<lambda>n. []) [])
                    (tick_company 100 (1 / 8)) Buy 1 w0)) =
     [Post ''F'' \<lparr>lor_price = double (10012 / 100), lots = 1, operation = Buy\<rparr>] \<and>
   requests (snd (create_limit_order (ex_gateway 116 (\<lambda>n fg. 200) (\<lambda>n. []) [])
                    (tick_company 1 (double (5 / 1000))) Buy 1 w0)) =
     [Post ''F'' \<lparr>lor_price = 1, lots = 1, operation = Buy\<rparr>]"
proof -
  let ?gw = "ex_gateway 116 (\<lambda>n fg. 200) (\<lambda>n. []) []"
  have i: "get_income (tick_company 100 (1 / 8)) = Inr (1 / 8)"
    by code_simp
  obtain b wb where b: "create_limit_order ?gw (ex_company ''F'' 116) Buy 1 w0 = (Inr b, wb)"
    by (simp add: create_limit_order_eq get_income_ex)
  obtain s ws where s: "create_limit_order ?gw (ex_company ''F'' 116) Sell 1 w0 = (Inr s, ws)"
    by (simp add: create_limit_order_eq get_income_ex)
  obtain t wt where t: "create_limit_order ?gw (tick_company 100 (1 / 8)) Buy 1 w0 = (Inr t, wt)"
    by (simp add: create_limit_order_eq i)
  have j: "\<exists>income. get_income (tick_company 1 (double (5 / 1000))) = Inr income"
    by (simp add: get_income_eq tick_company_def)
  obtain x wx where x: "create_limit_order ?gw (tick_company 1 (double (5 / 1000))) Buy 1 w0 =
                          (Inr x, wx)"
    using j by (auto simp: create_limit_order_eq)
  have px: "of_int 100 / 100 - 1 / 200 < double (price_for (tick_company 1 (double (5 / 1000))) Buy)"
    "double (price_for (tick_company 1 (double (5 / 1000))) Buy) < of_int 100 / 100 + 1 / 200"
    by code_simp+
  have fx: "figi (tick_company 1 (double (5 / 1000))) = ''F''"
    by (simp add: tick_company_def)
  obtain dx where dx: "requests wx =
      requests w0 @ [Post ''F'' \<lparr>lor_price = double (of_int dx / 100), lots = 1, operation = Buy\<rparr>]"
    "\<bar>of_int dx / 100 - double (price_for (tick_company 1 (double (5 / 1000))) Buy)\<bar> \<le> 1 / 200"
    using create_limit_order_price [OF x] unfolding fx by blast
  have "dx = 100" using hundredths_between [OF dx(2) px] .
  then have rx: "requests wx = [Post ''F'' \<lparr>lor_price = 1, lots = 1, operation = Buy\<rparr>]"
    using dx(1) by (simp add: w0_def double_one)
  have pb: "double (price_for (ex_company ''F'' 116) Buy) = 201 / 2"
    and ps: "double (price_for (ex_company ''F'' 116) Sell) = 201 / 2"
    and pt: "double (price_for (tick_company 100 (1 / 8)) Buy) = 801 / 8"
    by code_simp+
  have v: "double (of_int 10050 / 100) = 201 / 2"
    by code_simp
  have f: "figi (ex_company ''F'' 116) = ''F''" "figi (tick_company 100 (1 / 8)) = ''F''"
    "requests w0 = []"
    by (simp_all add: ex_company_def tick_company_def w0_def)
  obtain db where db: "requests wb =
      requests w0 @ [Post ''F'' \<lparr>lor_price = double (of_int db / 100), lots = 1, operation = Buy\<rparr>]"
    "\<bar>of_int db / 100 - (201 / 2 :: rat)\<bar> \<le> 1 / 200"
    using create_limit_order_price [OF b] unfolding pb f by blast
  obtain ds where ds: "requests ws =
      requests w0 @ [Post ''F'' \<lparr>lor_price = double (of_int ds / 100), lots = 1, operation = Sell\<rparr>]"
    "\<bar>of_int ds / 100 - (201 / 2 :: rat)\<bar> \<le> 1 / 200"
    using create_limit_order_price [OF s] unfolding ps f by blast
  obtain dt where dt: "requests wt =
      requests w0 @ [Post ''F'' \<lparr>lor_price = double (of_int dt / 100), lots = 1, operation = Buy\<rparr>]"
    "\<bar>of_int dt / 100 - (801 / 8 :: rat)\<bar> \<le> 1 / 200"
    "\<bar>of_int dt / 100 - (801 / 8 :: rat)\<bar> = 1 / 200 \<longrightarrow> even dt"
    using create_limit_order_price [OF t] unfolding pt f by blast
  have h: "(201 / 2 :: rat) = of_int 20100 / 200" "(801 / 8 :: rat) = of_int 20025 / 200"
    by simp_all
  have "db = 10050" using hundredths_near [OF db(2) [unfolded h]] by linarith
  moreover have "ds = 10050" using hundredths_near [OF ds(2) [unfolded h]] by linarith
  moreover have "dt = 10012"
  proof -
    have "dt = 10012 \<or> dt = 10013"
      using hundredths_near [OF dt(2) [unfolded h]] by linarith
    moreover have "dt \<noteq> 10013" using dt(3) by auto
    ultimately show ?thesis by simp
  qed
  ultimately show ?thesis using db(1) ds(1) dt(1) b s t v f(3) x rx by simp
qed

subsection \<open>Reconciliation of one open order\<close>

lemma side_cases: "side = Buy \<or> side = Sell"
  by (cases side) simp_all

lemma update_order_eq:
  assumes "get_info_by_figi gw (order_figi ord) w = (Inr (Some c), w1)"
  shows "update_order gw min_ratio ord w =
     (if float_eq (if order_operation ord = Buy then get_bid c else get_ask c) (order_price ord)
      then (Inr (), w1)
      else
        (case get_income c of
           Inl e \<Rightarrow> (Inl e, w1)
         | Inr income \<Rightarrow>
             if (order_operation ord = Buy \<and> min_ratio < income) \<or>
                (order_operation ord = Sell \<and> min_ratio < \<bar>income\<bar>)
             then (Inr (),
                   send (Post (order_figi ord)
                           \<lparr>lor_price = py_round (double (price_for c (order_operation ord))) 2,
                            lots = 1, operation = order_operation ord\<rparr>)
                     (send (Cancel (order_id ord)) w1))
             else (Inr (), send (Cancel (order_id ord)) w1)))"
  using assms get_info_by_figi_figi [OF assms] side_cases [of "order_operation ord"]
  by (auto simp: update_order_def create_limit_order_eq Let_def split: sum.splits)

lemma update_order_cases:
  obtains (raised) e w1 where
      "update_order gw min_ratio ord w = (Inl e, w1)" "requests w1 = requests w"
    | (fetched) c w1 where
      "get_info_by_figi gw (order_figi ord) w = (Inr (Some c), w1)" "requests w1 = requests w"
proof -
  obtain r w1 where g: "get_info_by_figi gw (order_figi ord) w = (r, w1)" by force
  have k: "requests w1 = requests w" using get_info_by_figi_world [OF g] by simp
  show thesis
  proof (cases r)
    case (Inl e)
    then have "update_order gw min_ratio ord w = (Inl e, w1)"
      using g by (simp add: update_order_def)
    then show thesis using k raised by blast
  next
    case (Inr co)
    show thesis
    proof (cases co)
      case None
      then have "update_order gw min_ratio ord w = (Inl AttributeError, w1)"
        using g Inr by (simp add: update_order_def)
      then show thesis using k raised by blast
    next
      case (Some c)
      then show thesis using g Inr k fetched by blast
    qed
  qed
qed

lemma update_order_requests:
  assumes "update_order gw min_ratio ord w = (r, w')"
  obtains (raised) e where "r = Inl e" "requests w' = requests w"
    | (untouched) c w1 where
        "get_info_by_figi gw (order_figi ord) w = (Inr (Some c), w1)"
        "float_eq (if order_operation ord = Buy then get_bid c else get_ask c) (order_price ord)"
        "r = Inr ()" "requests w' = requests w"
    | (replaced) c w1 income where
        "get_info_by_figi gw (order_figi ord) w = (Inr (Some c), w1)"
        "\<not> float_eq (if order_operation ord = Buy then get_bid c else get_ask c) (order_price ord)"
        "get_income c = Inr income"
        "(order_operation ord = Buy \<and> min_ratio < income) \<or>
         (order_operation ord = Sell \<and> min_ratio < \<bar>income\<bar>)"
        "r = Inr ()"
        "requests w' =
           requests w @
           [Cancel (order_id ord),
            Post (order_figi ord)
              \<lparr>lor_price = py_round (double (price_for c (order_operation ord))) 2, lots = 1,
               operation = order_operation ord\<rparr>]"
    | (cancelled) c w1 income where
        "get_info_by_figi gw (order_figi ord) w = (Inr (Some c), w1)"
        "\<not> float_eq (if order_operation ord = Buy then get_bid c else get_ask c) (order_price ord)"
        "get_income c = Inr income"
        "\<not> ((order_operation ord = Buy \<and> min_ratio < income) \<or>
            (order_operation ord = Sell \<and> min_ratio < \<bar>income\<bar>))"
        "r = Inr ()"
        "requests w' = requests w @ [Cancel (order_id ord)]"
proof (cases rule: update_order_cases [of gw min_ratio ord w])
  case (raised e w1)
  then show ?thesis using assms that(1) by simp
next
  case (fetched c w1)
  note eq = assms [unfolded update_order_eq [OF fetched(1)]]
  show ?thesis
  proof (cases "float_eq (if order_operation ord = Buy then get_bid c else get_ask c)
                  (order_price ord)")
    case True
    then have "r = Inr ()" "w' = w1" using eq by simp_all
    then show ?thesis using that(2) fetched True by blast
  next
    case False
    show ?thesis
    proof (cases "get_income c")
      case (Inl e)
      then have "r = Inl e" "w' = w1" using eq False by simp_all
      then show ?thesis using that(1) fetched by blast
    next
      case (Inr income)
      show ?thesis
      proof (cases "(order_operation ord = Buy \<and> min_ratio < income) \<or>
                    (order_operation ord = Sell \<and> min_ratio < \<bar>income\<bar>)")
        case True
        then have "r = Inr ()"
          "w' = send (Post (order_figi ord)
                        \<lparr>lor_price = py_round (double (price_for c (order_operation ord))) 2,
                         lots = 1, operation = order_operation ord\<rparr>)
                  (send (Cancel (order_id ord)) w1)"
          using eq False Inr by simp_all
        then show ?thesis using that(3) [OF fetched(1) False Inr True] fetched(2)
          by (simp add: send_def)
      next
        case nt: False
        then have "r = Inr ()" "w' = send (Cancel (order_id ord)) w1"
          using eq False Inr by (auto split: if_splits)
        then show ?thesis using that(4) [OF fetched(1) False Inr nt] fetched(2)
          by (simp add: send_def)
      qed
    qed
  qed
qed

text \<open>
  Claim C1 says that an order is left untouched exactly when its price equals the
  price of section 4.3 (best bid plus one tick for a buy). The program compares the
  order's price with the best bid itself: a buy order resting at 100.5, which is the
  section 4.3 price at a best bid of 100 and a tick of 0.5, is cancelled and replaced.
\<close>

theorem update_active_orders_cancels_correct_price:
  "float_eq (price_for (ex_company ''F'' 116) Buy)
     (order_price (ex_order ''1'' ''F'' Buy (201 / 2) 7)) \<and>
   fst (get_info_by_figi
          (ex_gateway 116 (\<lambda>n fg. 200) (\<lambda>n. [ex_order ''1'' ''F'' Buy (201 / 2) 7]) [])
          ''F'' (called w0)) = Inr (Some (ex_company ''F'' 116)) \<and>
   update_active_orders
     (ex_gateway 116 (\<lambda>n fg. 200) (\<lambda>n. [ex_order ''1'' ''F'' Buy (201 / 2) 7]) [])
     (1 / 16) w0 =
     (Inr (),
      \<lparr>calls = 5,
       requests = [Cancel ''1'', Post ''F'' \<lparr>lor_price = 201 / 2, lots = 1, operation = Buy\<rparr>],
       slept = []\<rparr>)"
  by code_simp

text \<open>
  Claim C1, amended. When the step for one open order completes, the order is left
  untouched (no request is sent) exactly when its price equals the current best bid
  (buy order) or best ask (sell order) after both are rounded to 3 decimal places.
  Otherwise exactly one cancel is sent for it, followed by at most one new order for the
  same instrument.
\<close>

theorem update_order_untouched_iff:
  assumes "update_order gw min_ratio ord w = (Inr u, w')"
  shows "\<exists>c w1. get_info_by_figi gw (order_figi ord) w = (Inr (Some c), w1) \<and>
           ((requests w' = requests w) =
              float_eq (if order_operation ord = Buy then get_bid c else get_ask c)
                (order_price ord)) \<and>
           (requests w' = requests w \<or>
            requests w' = requests w @ [Cancel (order_id ord)] \<or>
            (\<exists>body. requests w' =
                      requests w @ [Cancel (order_id ord), Post (order_figi ord) body]))"
  using assms
proof (cases rule: update_order_requests)
  case (raised e)
  then show ?thesis by simp
next
  case (untouched c w1)
  then show ?thesis by blast
next
  case (replaced c w1 income)
  then show ?thesis by (intro exI [of _ c] exI [of _ w1]) simp
next
  case (cancelled c w1 income)
  then show ?thesis by (intro exI [of _ c] exI [of _ w1]) simp
qed

text \<open>
  A buy order resting at 100 with the best bid at 100 is left untouched.
\<close>

theorem update_order_untouched_example:
  "float_eq (get_bid (ex_company ''F'' 116)) 100 \<and>
   requests (snd (update_order (ex_gateway 116 (\<lambda>n fg. 200) (\<lambda>n. []) []) (1 / 16)
                    (ex_order ''1'' ''F'' Buy 100 7) w0)) = []"
proof -
  let ?gw = "ex_gateway 116 (\<lambda>n fg. 200) (\<lambda>n. []) []"
  have run: "update_order ?gw (1 / 16) (ex_order ''1'' ''F'' Buy 100 7) w0 =
               (Inr (), \<lparr>calls = 2, requests = [], slept = []\<rparr>)"
    by code_simp
  have gi: "fst (get_info_by_figi ?gw ''F'' w0) = Inr (Some (ex_company ''F'' 116))"
    by code_simp
  obtain c w1 where
    c: "get_info_by_figi ?gw (order_figi (ex_order ''1'' ''F'' Buy 100 7)) w0 = (Inr (Some c), w1)"
    and e: "(requests \<lparr>calls = 2, requests = [], slept = []\<rparr> = requests w0) =
            float_eq (if order_operation (ex_order ''1'' ''F'' Buy 100 7) = Buy
                      then get_bid c else get_ask c)
              (order_price (ex_order ''1'' ''F'' Buy 100 7))"
    using update_order_untouched_iff [OF run] by blast
  have "c = ex_company ''F'' 116" using c gi by (simp add: ex_order_def)
  then show ?thesis using e run by (simp add: ex_order_def w0_def)
qed

text \<open>
  Claim C3 says that the replacement depends on the income ratio clearing the
  threshold. The program compares the ratio rounded to 3 decimal places: at a close of
  101.3125, a bid of 100 and a last price of 128 the ratio is 0.01025390625, above a
  minimum of 0.01, yet a drifted buy order is cancelled and not replaced, because the
  ratio rounds to 0.01.
\<close>

theorem update_order_rounds_income:
  "income_ratio (ex_company ''F'' (1621 / 16)) = Some (21 / 2048) \<and>
   double (1 / 100) < (21 / 2048 :: rat) \<and>
   update_order (ex_gateway (1621 / 16) (\<lambda>n fg. 200) (\<lambda>n. []) []) (double (1 / 100))
     (ex_order ''1'' ''F'' Buy 99 7) w0 =
     (Inr (), \<lparr>calls = 3, requests = [Cancel ''1''], slept = []\<rparr>)"
  by code_simp

text \<open>
  Claim C3, amended. Whenever the step for one open order sends anything, it has
  fetched the valuation, computed the income (the ratio
  \<open>(close_price - bid) / last_price\<close> in double precision, rounded to 3 decimal places)
  and returns normally; the cancel is followed by a replacement (one lot, same side, at
  the section 4.3 price rounded to 2 decimals) exactly when \<open>income > min_ratio\<close> for
  a buy order and \<open>|income| > min_ratio\<close> for a sell order, and by nothing otherwise.
\<close>

theorem update_order_replaces_iff:
  assumes "update_order gw min_ratio ord w = (r, w')" and "requests w' \<noteq> requests w"
  shows "\<exists>c w1 cl l income.
           get_info_by_figi gw (order_figi ord) w = (Inr (Some c), w1) \<and>
           close_price c = Some cl \<and> last_price c = Some l \<and> l \<noteq> 0 \<and>
           income = py_round (double (double (cl - price (bid c)) / l)) 3 \<and>
           r = Inr () \<and>
           (if (order_operation ord = Buy \<and> min_ratio < income) \<or>
               (order_operation ord = Sell \<and> min_ratio < \<bar>income\<bar>)
            then requests w' =
                   requests w @
                   [Cancel (order_id ord),
                    Post (order_figi ord)
                      \<lparr>lor_price = py_round (double (price_for c (order_operation ord))) 2,
                       lots = 1, operation = order_operation ord\<rparr>]
            else requests w' = requests w @ [Cancel (order_id ord)])"
  using assms(1)
proof (cases rule: update_order_requests)
  case (raised e)
  then show ?thesis using assms(2) by simp
next
  case (untouched c w1)
  then show ?thesis using assms(2) by simp
next
  case (replaced c w1 income)
  obtain cl l where "close_price c = Some cl" "last_price c = Some l" "l \<noteq> 0"
    "income = py_round (double (double (cl - price (bid c)) / l)) 3"
    using replaced(3) by (auto simp: get_income_eq split: option.splits if_splits)
  with replaced show ?thesis
    by (intro exI [of _ c] exI [of _ w1] exI [of _ cl] exI [of _ l] exI [of _ income]) simp
next
  case (cancelled c w1 income)
  obtain cl l where "close_price c = Some cl" "last_price c = Some l" "l \<noteq> 0"
    "income = py_round (double (double (cl - price (bid c)) / l)) 3"
    using cancelled(3) by (auto simp: get_income_eq split: option.splits if_splits)
  with cancelled show ?thesis
    by (intro exI [of _ c] exI [of _ w1] exI [of _ cl] exI [of _ l] exI [of _ income]) simp
qed

text \<open>
  At an income of \<open>- 0.125\<close> and a minimum of 0.0625, a drifted buy order is
  cancelled and not replaced, a drifted sell order is cancelled and replaced.
\<close>

theorem update_order_replaces_examples:
  "update_order (ex_gateway 84 (\<lambda>n fg. 200) (\<lambda>n. []) []) (1 / 16)
     (ex_order ''1'' ''F'' Buy 99 7) w0 =
     (Inr (), \<lparr>calls = 3, requests = [Cancel ''1''], slept = []\<rparr>) \<and>
   update_order (ex_gateway 84 (\<lambda>n fg. 200) (\<lambda>n. []) []) (1 / 16)
     (ex_order ''2'' ''F'' Sell 99 7) w0 =
     (Inr (),
      \<lparr>calls = 4,
       requests = [Cancel ''2'', Post ''F'' \<lparr>lor_price = 201 / 2, lots = 1, operation = Sell\<rparr>],
       slept = []\<rparr>)"
proof -
  let ?gw = "ex_gateway 84 (\<lambda>n fg. 200) (\<lambda>n. []) []"
  obtain rb wb where b: "update_order ?gw (1 / 16) (ex_order ''1'' ''F'' Buy 99 7) w0 = (rb, wb)"
    by force
  obtain rs ws where s: "update_order ?gw (1 / 16) (ex_order ''2'' ''F'' Sell 99 7) w0 = (rs, ws)"
    by force
  have vb: "snd (update_order ?gw (1 / 16) (ex_order ''1'' ''F'' Buy 99 7) w0) =
              \<lparr>calls = 3, requests = [Cancel ''1''], slept = []\<rparr>"
    and vs: "snd (update_order ?gw (1 / 16) (ex_order ''2'' ''F'' Sell 99 7) w0) =
              \<lparr>calls = 4,
               requests = [Cancel ''2'',
                           Post ''F'' \<lparr>lor_price = 201 / 2, lots = 1, operation = Sell\<rparr>],
               slept = []\<rparr>"
    by code_simp+
  have nb: "requests wb \<noteq> requests w0" and ns: "requests ws \<noteq> requests w0"
    using b s vb vs by (auto simp: w0_def)
  have "rb = Inr ()" using update_order_replaces_iff [OF b nb] by blast
  moreover have "rs = Inr ()" using update_order_replaces_iff [OF s ns] by blast
  ultimately show ?thesis using b s vb vs by simp
qed

subsection \<open>Two reconciliation passes\<close>

lemma update_orders_untouched:
  assumes "\<And>ord w. ord \<in> set os \<Longrightarrow>
             \<exists>w'. update_order gw min_ratio ord w = (Inr (), w') \<and> requests w' = requests w"
  shows "\<exists>w'. update_orders gw min_ratio os w = (Inr (), w') \<and> requests w' = requests w"
  using assms
proof (induction os arbitrary: w)
  case Nil
  then show ?case by simp
next
  case (Cons ord os)
  obtain w1 where a: "update_order gw min_ratio ord w = (Inr (), w1)" "requests w1 = requests w"
    using Cons.prems [of ord w] by auto
  obtain w2 where "update_orders gw min_ratio os w1 = (Inr (), w2)" "requests w2 = requests w1"
    using Cons.IH [of w1] Cons.prems by auto
  then show ?case using a by simp
qed

lemma get_info_by_figi_fst:
  assumes "market_search_by_figi_get gw (calls w) fg = market_search_by_figi_get gw (calls w2) fg"
    and "market_orderbook_get gw (Suc (calls w)) fg = market_orderbook_get gw (Suc (calls w2)) fg"
  shows "fst (get_info_by_figi gw fg w) = fst (get_info_by_figi gw fg w2)"
  using assms
  by (simp add: get_info_by_figi_def get_price_def Let_def called_def
      split: sum.splits prod.splits)

lemma update_order_untouched_again:
  assumes quotes: "\<forall>n fg. market_orderbook_get gw n fg = market_orderbook_get gw 0 fg"
    and infos: "\<forall>n fg. market_search_by_figi_get gw n fg = market_search_by_figi_get gw 0 fg"
    and first: "update_order gw min_ratio ord wa = (Inr (), wb)" "requests wb = requests wa"
  shows "\<exists>w'. update_order gw min_ratio ord w = (Inr (), w') \<and> requests w' = requests w"
  using first(1)
proof (cases rule: update_order_requests)
  case (raised e)
  then show ?thesis by simp
next
  case (untouched c w1)
  have "fst (get_info_by_figi gw (order_figi ord) w) = fst (get_info_by_figi gw (order_figi ord) wa)"
    by (rule get_info_by_figi_fst) (metis quotes infos)+
  then obtain w2 where g: "get_info_by_figi gw (order_figi ord) w = (Inr (Some c), w2)"
    using untouched(1) by (cases "get_info_by_figi gw (order_figi ord) w") simp
  have "requests w2 = requests w" using get_info_by_figi_world [OF g] by simp
  then show ?thesis using update_order_eq [OF g] untouched(2) by simp
next
  case (replaced c w1 income)
  then show ?thesis using first(2) by simp
next
  case (cancelled c w1 income)
  then show ?thesis using first(2) by simp
qed

lemma update_orders_actions:
  assumes "\<forall>n fg. market_orderbook_get gw n fg = market_orderbook_get gw 0 fg"
    and "\<forall>n fg. market_search_by_figi_get gw n fg = market_search_by_figi_get gw 0 fg"
    and "update_orders gw min_ratio os w = (r, w')"
  shows "\<exists>acts. requests w' = requests w @ concat acts \<and>
           (\<forall>a \<in> set acts. \<exists>ord \<in> set os.
              \<not> (\<exists>wa wb. update_order gw min_ratio ord wa = (Inr (), wb) \<and>
                          requests wb = requests wa) \<and>
              (a = [Cancel (order_id ord)] \<or>
               (\<exists>body. a = [Cancel (order_id ord), Post (order_figi ord) body])))"
  using assms(3)
proof (induction os arbitrary: w)
  case Nil
  then show ?case by (intro exI [of _ "[]"]) simp
next
  case (Cons ord os)
  obtain r1 w1 where a: "update_order gw min_ratio ord w = (r1, w1)" by force
  have moved: "\<not> (\<exists>wa wb. update_order gw min_ratio ord wa = (Inr (), wb) \<and>
                          requests wb = requests wa)"
    if "requests w1 \<noteq> requests w"
  proof
    assume "\<exists>wa wb. update_order gw min_ratio ord wa = (Inr (), wb) \<and> requests wb = requests wa"
    then obtain wa wb where "update_order gw min_ratio ord wa = (Inr (), wb)"
      "requests wb = requests wa" by blast
    from update_order_untouched_again [OF assms(1) assms(2) this, of w] a that
    show False by auto
  qed
  have rest: "\<exists>acts. requests w' = requests w1 @ concat acts \<and>
           (\<forall>a \<in> set acts. \<exists>ord \<in> set os.
              \<not> (\<exists>wa wb. update_order gw min_ratio ord wa = (Inr (), wb) \<and>
                          requests wb = requests wa) \<and>
              (a = [Cancel (order_id ord)] \<or>
               (\<exists>body. a = [Cancel (order_id ord), Post (order_figi ord) body])))"
    if "r1 = Inr ()"
    using Cons.IH [of w1] Cons.prems a that by simp
  from a show ?case
  proof (cases rule: update_order_requests)
    case (raised e)
    then have "w' = w1" using Cons.prems a by simp
    then show ?thesis using raised by (intro exI [of _ "[]"]) simp
  next
    case (untouched c w2)
    then obtain acts where "requests w' = requests w1 @ concat acts"
      "\<forall>a \<in> set acts. \<exists>ord \<in> set os.
              \<not> (\<exists>wa wb. update_order gw min_ratio ord wa = (Inr (), wb) \<and>
                          requests wb = requests wa) \<and>
              (a = [Cancel (order_id ord)] \<or>
               (\<exists>body. a = [Cancel (order_id ord), Post (order_figi ord) body]))"
      using rest by blast
    then show ?thesis using untouched(4) by (intro exI [of _ acts]) auto
  next
    case (replaced c w2 income)
    then obtain acts where acts: "requests w' = requests w1 @ concat acts"
      "\<forall>a \<in> set acts. \<exists>ord \<in> set os.
              \<not> (\<exists>wa wb. update_order gw min_ratio ord wa = (Inr (), wb) \<and>
                          requests wb = requests wa) \<and>
              (a = [Cancel (order_id ord)] \<or>
               (\<exists>body. a = [Cancel (order_id ord), Post (order_figi ord) body]))"
      using rest by blast
    let ?a = "[Cancel (order_id ord),
               Post (order_figi ord)
                 \<lparr>lor_price = py_round (double (price_for c (order_operation ord))) 2,
                  lots = 1, operation = order_operation ord\<rparr>]"
    have m: "\<not> (\<exists>wa wb. update_order gw min_ratio ord wa = (Inr (), wb) \<and>
                          requests wb = requests wa)"
      using moved replaced(6) by simp
    have "requests w' = requests w @ concat (?a # acts)"
      using acts(1) replaced(6) by simp
    moreover have "\<forall>a \<in> set (?a # acts). \<exists>o' \<in> set (ord # os).
              \<not> (\<exists>wa wb. update_order gw min_ratio o' wa = (Inr (), wb) \<and>
                          requests wb = requests wa) \<and>
              (a = [Cancel (order_id o')] \<or>
               (\<exists>body. a = [Cancel (order_id o'), Post (order_figi o') body]))"
      using acts(2) m by auto
    ultimately show ?thesis by blast
  next
    case (cancelled c w2 income)
    then obtain acts where acts: "requests w' = requests w1 @ concat acts"
      "\<forall>a \<in> set acts. \<exists>ord \<in> set os.
              \<not> (\<exists>wa wb. update_order gw min_ratio ord wa = (Inr (), wb) \<and>
                          requests wb = requests wa) \<and>
              (a = [Cancel (order_id ord)] \<or>
               (\<exists>body. a = [Cancel (order_id ord), Post (order_figi ord) body]))"
      using rest by blast
    let ?a = "[Cancel (order_id ord)]"
    have m: "\<not> (\<exists>wa wb. update_order gw min_ratio ord wa = (Inr (), wb) \<and>
                          requests wb = requests wa)"
      using moved cancelled(6) by simp
    have "requests w' = requests w @ concat (?a # acts)"
      using acts(1) cancelled(6) by simp
    moreover have "\<forall>a \<in> set (?a # acts). \<exists>o' \<in> set (ord # os).
              \<not> (\<exists>wa wb. update_order gw min_ratio o' wa = (Inr (), wb) \<and>
                          requests wb = requests wa) \<and>
              (a = [Cancel (order_id o')] \<or>
               (\<exists>body. a = [Cancel (order_id o'), Post (order_figi o') body]))"
      using acts(2) m by auto
    ultimately show ?thesis by blast
  qed
qed

text \<open>
  Claim C2 says that a second pass with identical quotes sends nothing. The first pass
  replaces a stale buy order by one at 100.5, one tick above the best bid of 100. With
  the quotes unchanged, the second pass finds that order away from the best bid and
  cancels and replaces it again.
\<close>

theorem update_active_orders_second_pass_replaces_again:
  "market_orderbook_get
     (ex_gateway 116 (\<lambda>n fg. 200)
        (\<lambda>n. if n = 0 then [ex_order ''1'' ''F'' Buy 99 7]
              else [ex_order ''2'' ''F'' Buy (201 / 2) 1]) []) 2 ''F'' =
   market_orderbook_get
     (ex_gateway 116 (\<lambda>n fg. 200)
        (\<lambda>n. if n = 0 then [ex_order ''1'' ''F'' Buy 99 7]
              else [ex_order ''2'' ''F'' Buy (201 / 2) 1]) []) 7 ''F'' \<and>
   update_active_orders
     (ex_gateway 116 (\<lambda>n fg. 200)
        (\<lambda>n. if n = 0 then [ex_order ''1'' ''F'' Buy 99 7]
              else [ex_order ''2'' ''F'' Buy (201 / 2) 1]) [])
     (1 / 16) w0 =
     (Inr (),
      \<lparr>calls = 5,
       requests = [Cancel ''1'', Post ''F'' \<lparr>lor_price = 201 / 2, lots = 1, operation = Buy\<rparr>],
       slept = []\<rparr>) \<and>
   update_active_orders
     (ex_gateway 116 (\<lambda>n fg. 200)
        (\<lambda>n. if n = 0 then [ex_order ''1'' ''F'' Buy 99 7]
              else [ex_order ''2'' ''F'' Buy (201 / 2) 1]) [])
     (1 / 16)
     \<lparr>calls = 5,
      requests = [Cancel ''1'', Post ''F'' \<lparr>lor_price = 201 / 2, lots = 1, operation = Buy\<rparr>],
      slept = []\<rparr> =
     (Inr (),
      \<lparr>calls = 10,
       requests = [Cancel ''1'', Post ''F'' \<lparr>lor_price = 201 / 2, lots = 1, operation = Buy\<rparr>,
                   Cancel ''2'', Post ''F'' \<lparr>lor_price = 201 / 2, lots = 1, operation = Buy\<rparr>],
       slept = []\<rparr>)"
  by code_simp

text \<open>
  Claim C2, amended. With quotes that do not change, everything a pass sends is the
  cancel, alone or followed by one replacement, of a listed order that no step has left
  untouched. So an order that an earlier step left untouched is sent no cancel and no
  replacement by a later pass, whatever else that pass lists and whether it completes or
  raises; and a pass that lists only such orders completes. The orders a pass has
  replaced are not covered: the counterexample shows one being cancelled again.
\<close>

theorem update_active_orders_second_pass:
  assumes "\<forall>n fg. market_orderbook_get gw n fg = market_orderbook_get gw 0 fg"
    and "\<forall>n fg. market_search_by_figi_get gw n fg = market_search_by_figi_get gw 0 fg"
    and "update_active_orders gw min_ratio w = (r, w')"
  shows "(\<exists>acts. requests w' = requests w @ concat acts \<and>
            (\<forall>a \<in> set acts. \<exists>ord \<in> set (payload (orders_get gw (calls w))).
               \<not> (\<exists>wa wb. update_order gw min_ratio ord wa = (Inr (), wb) \<and>
                           requests wb = requests wa) \<and>
               (a = [Cancel (order_id ord)] \<or>
                (\<exists>body. a = [Cancel (order_id ord), Post (order_figi ord) body])))) \<and>
         (status_code (orders_get gw (calls w)) = 200 \<and>
          (\<forall>ord \<in> set (payload (orders_get gw (calls w))).
             \<exists>wa wb. update_order gw min_ratio ord wa = (Inr (), wb) \<and>
                     requests wb = requests wa)
          \<longrightarrow> r = Inr () \<and> requests w' = requests w)"
proof (intro conjI impI)
  show "\<exists>acts. requests w' = requests w @ concat acts \<and>
            (\<forall>a \<in> set acts. \<exists>ord \<in> set (payload (orders_get gw (calls w))).
               \<not> (\<exists>wa wb. update_order gw min_ratio ord wa = (Inr (), wb) \<and>
                           requests wb = requests wa) \<and>
               (a = [Cancel (order_id ord)] \<or>
                (\<exists>body. a = [Cancel (order_id ord), Post (order_figi ord) body])))"
  proof (cases "status_code (orders_get gw (calls w)) = 200")
    case True
    then have "update_orders gw min_ratio (payload (orders_get gw (calls w))) (called w) = (r, w')"
      using assms(3) by (simp add: update_active_orders_def Let_def)
    from update_orders_actions [OF assms(1) assms(2) this] show ?thesis
      by (simp add: called_def)
  next
    case False
    then have "requests w' = requests w"
      using assms(3) by (auto simp: update_active_orders_def Let_def called_def)
    then show ?thesis by (intro exI [of _ "[]"]) simp
  qed
next
  assume h: "status_code (orders_get gw (calls w)) = 200 \<and>
          (\<forall>ord \<in> set (payload (orders_get gw (calls w))).
             \<exists>wa wb. update_order gw min_ratio ord wa = (Inr (), wb) \<and>
                     requests wb = requests wa)"
  have "\<exists>w2. update_orders gw min_ratio (payload (orders_get gw (calls w))) (called w) =
               (Inr (), w2) \<and> requests w2 = requests (called w)"
  proof (rule update_orders_untouched)
    fix ord w2
    assume "ord \<in> set (payload (orders_get gw (calls w)))"
    then obtain wa wb where
      "update_order gw min_ratio ord wa = (Inr (), wb)" "requests wb = requests wa"
      using h by blast
    then show "\<exists>w'. update_order gw min_ratio ord w2 = (Inr (), w') \<and> requests w' = requests w2"
      using update_order_untouched_again [OF assms(1) assms(2)] by blast
  qed
  then show "r = Inr ()" "requests w' = requests w" using h assms(3)
    by (auto simp: update_active_orders_def Let_def called_def)
qed

text \<open>
  A pass over an order resting at the best bid and a replacement resting one tick
  above it: the first is sent no cancel, the second is cancelled and replaced.
\<close>

theorem update_active_orders_second_pass_example:
  "Cancel ''1'' \<notin>
     set (requests (snd (update_active_orders
            (ex_gateway 116 (\<lambda>n fg. 200)
               (\<lambda>n. [ex_order ''1'' ''F'' Buy 100 7, ex_order ''2'' ''F'' Buy (201 / 2) 1]) [])
            (1 / 16) w0))) \<and>
   requests (snd (update_active_orders
            (ex_gateway 116 (\<lambda>n fg. 200)
               (\<lambda>n. [ex_order ''1'' ''F'' Buy 100 7, ex_order ''2'' ''F'' Buy (201 / 2) 1]) [])
            (1 / 16) w0)) =
     [Cancel ''2'', Post ''F'' \<lparr>lor_price = 201 / 2, lots = 1, operation = Buy\<rparr>]"
proof -
  let ?gw = "ex_gateway 116 (\<lambda>n fg. 200)
               (\<lambda>n. [ex_order ''1'' ''F'' Buy 100 7, ex_order ''2'' ''F'' Buy (201 / 2) 1]) []"
  obtain r w' where run: "update_active_orders ?gw (1 / 16) w0 = (r, w')" by force
  have q: "\<forall>n fg. market_orderbook_get ?gw n fg = market_orderbook_get ?gw 0 fg"
    and i: "\<forall>n fg. market_search_by_figi_get ?gw n fg = market_search_by_figi_get ?gw 0 fg"
    by (simp_all add: ex_gateway_def)
  have l: "payload (orders_get ?gw (calls w0)) =
             [ex_order ''1'' ''F'' Buy 100 7, ex_order ''2'' ''F'' Buy (201 / 2) 1]"
    by (simp add: ex_gateway_def)
  have "update_order ?gw (1 / 16) (ex_order ''1'' ''F'' Buy 100 7) w0 =
          (Inr (), \<lparr>calls = 2, requests = [], slept = []\<rparr>)"
    by code_simp
  then have u: "\<exists>wa wb. update_order ?gw (1 / 16) (ex_order ''1'' ''F'' Buy 100 7) wa = (Inr (), wb) \<and>
                  requests wb = requests wa"
    by (intro exI [of _ w0] exI [of _ "\<lparr>calls = 2, requests = [], slept = []\<rparr>"])
       (simp add: w0_def)
  obtain acts where acts: "requests w' = requests w0 @ concat acts"
    "\<forall>a \<in> set acts. \<exists>ord \<in> set (payload (orders_get ?gw (calls w0))).
               \<not> (\<exists>wa wb. update_order ?gw (1 / 16) ord wa = (Inr (), wb) \<and>
                           requests wb = requests wa) \<and>
               (a = [Cancel (order_id ord)] \<or>
                (\<exists>body. a = [Cancel (order_id ord), Post (order_figi ord) body]))"
    using update_active_orders_second_pass [OF q i run] by blast
  have "Cancel ''1'' \<notin> set a" if "a \<in> set acts" for a
  proof -
    have "\<exists>ord \<in> set [ex_order ''1'' ''F'' Buy 100 7, ex_order ''2'' ''F'' Buy (201 / 2) 1].
               \<not> (\<exists>wa wb. update_order ?gw (1 / 16) ord wa = (Inr (), wb) \<and>
                           requests wb = requests wa) \<and>
               (a = [Cancel (order_id ord)] \<or>
                (\<exists>body. a = [Cancel (order_id ord), Post (order_figi ord) body]))"
      using bspec [OF acts(2) that] unfolding l .
    then have "a = [Cancel (order_id (ex_order ''2'' ''F'' Buy (201 / 2) 1))] \<or>
                (\<exists>body. a = [Cancel (order_id (ex_order ''2'' ''F'' Buy (201 / 2) 1)),
                              Post (order_figi (ex_order ''2'' ''F'' Buy (201 / 2) 1)) body])"
      using u by (simp only: list.set bex_simps insert_iff empty_iff simp_thms)
    then show ?thesis by (auto simp: ex_order_def)
  qed
  then have "Cancel ''1'' \<notin> set (requests w')"
    using acts(1) by (auto simp: w0_def)
  moreover have "requests (snd (update_active_orders ?gw (1 / 16) w0)) =
     [Cancel ''2'', Post ''F'' \<lparr>lor_price = 201 / 2, lots = 1, operation = Buy\<rparr>]"
    by code_simp
  ultimately show ?thesis using run by simp
qed

subsection \<open>A failure for one instrument\<close>

text \<open>
  Claim C7 says that a failed fetch for one instrument is skipped and the other open
  orders are still processed. With two open orders, on instruments A and B, a quote
  fetch answering 500 for A raises \<open>Exception(500)\<close> out of
  \<open>update_active_orders\<close>, and an instrument search answering 404 for A raises
  \<open>AttributeError\<close>; either way nothing is sent for B, whose order the same pass
  cancels and replaces when A is not listed.
\<close>

theorem update_active_orders_aborts_on_failed_quote:
  "update_active_orders
     (ex_gateway 116 (\<lambda>n fg. if fg = ''A'' then 500 else 200)
        (\<lambda>n. [ex_order ''1'' ''A'' Buy 99 7, ex_order ''2'' ''B'' Buy 99 7]) [])
     (1 / 16) w0 =
     (Inl (StatusException 500), \<lparr>calls = 3, requests = [], slept = []\<rparr>) \<and>
   update_active_orders
     ((ex_gateway 116 (\<lambda>n fg. 200)
         (\<lambda>n. [ex_order ''1'' ''A'' Buy 99 7, ex_order ''2'' ''B'' Buy 99 7]) [])
        \<lparr>market_search_by_figi_get :=
           \<lambda>n fg. \<lparr>status_code = if fg = ''A'' then 404 else 200, payload = ex_info\<rparr>\<rparr>)
     (1 / 16) w0 =
     (Inl AttributeError, \<lparr>calls = 2, requests = [], slept = []\<rparr>) \<and>
   update_active_orders
     (ex_gateway 116 (\<lambda>n fg. if fg = ''A'' then 500 else 200)
        (\<lambda>n. [ex_order ''2'' ''B'' Buy 99 7]) [])
     (1 / 16) w0 =
     (Inr (),
      \<lparr>calls = 5,
       requests = [Cancel ''2'', Post ''B'' \<lparr>lor_price = 201 / 2, lots = 1, operation = Buy\<rparr>],
       slept = []\<rparr>)"
  by code_simp

subsection \<open>The settlement responder\<close>


lemma answer_operation_requests:
  assumes "answer_operation gw opn w = (r, w')"
  obtains (skipped) "op_status opn \<noteq> Done" "r = Inr ()" "w' = w"
    | (raised) e where "op_status opn = Done" "r = Inl e" "requests w' = requests w"
    | (mirrored) c w1 where
        "op_status opn = Done"
        "get_info_by_figi gw (op_figi opn) w = (Inr (Some c), w1)"
        "r = Inr ()"
        "requests w' =
           requests w @
           [Post (op_figi opn)
              \<lparr>lor_price = py_round (double (price_for c (mirror (op_operation_type opn)))) 2, lots = 1,
               operation = mirror (op_operation_type opn)\<rparr>]"
proof (cases "op_status opn = Done")
  case False
  then show ?thesis using assms skipped by (simp add: answer_operation_def)
next
  case True
  obtain r1 w1 where g: "get_info_by_figi gw (op_figi opn) w = (r1, w1)" by force
  have k: "requests w1 = requests w" using get_info_by_figi_world [OF g] by simp
  show ?thesis
  proof (cases r1)
    case (Inl e)
    then have "r = Inl e" "w' = w1" using assms True g by (simp_all add: answer_operation_def)
    then show ?thesis using raised True k by blast
  next
    case (Inr co)
    show ?thesis
    proof (cases co)
      case None
      then have "r = Inl AttributeError" "w' = w1"
        using assms True g Inr by (simp_all add: answer_operation_def)
      then show ?thesis using raised True k by blast
    next
      case (Some c)
      have f: "figi c = op_figi opn"
        using get_info_by_figi_figi g Inr Some by blast
      show ?thesis
      proof (cases "get_income c")
        case (Inl e)
        then have "r = Inl e" "w' = w1"
          using assms True g Inr Some
          by (simp_all add: answer_operation_def create_limit_order_eq)
        then show ?thesis using raised True k by blast
      next
        case inc: (Inr income)
        then have "r = Inr ()"
          "w' = send (Post (op_figi opn)
                  \<lparr>lor_price = py_round (double (price_for c (mirror (op_operation_type opn)))) 2,
                   lots = 1, operation = mirror (op_operation_type opn)\<rparr>) w1"
          using assms True g Inr Some f
          by (simp_all add: answer_operation_def create_limit_order_eq)
        then show ?thesis using mirrored [of c w1] True g Inr Some k
          by (simp add: send_def)
      qed
    qed
  qed
qed






subsection \<open>Quantity of the submitted orders\<close>

lemma update_orders_lots:
  assumes "update_orders gw min_ratio os w = (r, w')"
  shows "\<exists>new. requests w' = requests w @ new \<and>
           (\<forall>fg body. Post fg body \<in> set new \<longrightarrow> lots body = 1)"
  using assms
proof (induction os arbitrary: w)
  case Nil
  then show ?case by simp
next
  case (Cons ord os)
  obtain r1 w1 where a: "update_order gw min_ratio ord w = (r1, w1)" by force
  have one: "\<exists>new. requests w1 = requests w @ new \<and>
               (\<forall>fg body. Post fg body \<in> set new \<longrightarrow> lots body = 1)"
    using a by (cases rule: update_order_requests) auto
  show ?case
  proof (cases r1)
    case (Inl e)
    then show ?thesis using Cons.prems a one by simp
  next
    case (Inr x)
    then have "update_orders gw min_ratio os w1 = (r, w')" using Cons.prems a by simp
    from Cons.IH [OF this] one show ?thesis by auto
  qed
qed

lemma answer_operations_lots:
  assumes "answer_operations gw ops w = (r, w')"
  shows "\<exists>new. requests w' = requests w @ new \<and>
           (\<forall>fg body. Post fg body \<in> set new \<longrightarrow> lots body = 1)"
  using assms
proof (induction ops arbitrary: w)
  case Nil
  then show ?case by simp
next
  case (Cons opn ops)
  obtain r1 w1 where a: "answer_operation gw opn w = (r1, w1)" by force
  have one: "\<exists>new. requests w1 = requests w @ new \<and>
               (\<forall>fg body. Post fg body \<in> set new \<longrightarrow> lots body = 1)"
    using a by (cases rule: answer_operation_requests) auto
  show ?case
  proof (cases r1)
    case (Inl e)
    then show ?thesis using Cons.prems a one by simp
  next
    case (Inr x)
    then have "answer_operations gw ops w1 = (r, w')" using Cons.prems a by simp
    from Cons.IH [OF this] one show ?thesis by auto
  qed
qed

text \<open>
  Claim C10. Every order sent by \<open>update_active_orders\<close> and by
  \<open>check_done_orders\<close>, whether they complete or raise, is for exactly 1 lot.
\<close>

theorem submitted_orders_one_lot:
  "(\<exists>new. requests (snd (update_active_orders gw min_ratio w)) = requests w @ new \<and>
          (\<forall>fg body. Post fg body \<in> set new \<longrightarrow> lots body = 1)) \<and>
   (\<exists>new. requests (snd (check_done_orders gw strftime from_time w)) = requests w @ new \<and>
          (\<forall>fg body. Post fg body \<in> set new \<longrightarrow> lots body = 1))"
proof
  obtain r w' where
    "update_orders gw min_ratio (payload (orders_get gw (calls w))) (called w) = (r, w')"
    by force
  from update_orders_lots [OF this] this
  show "\<exists>new. requests (snd (update_active_orders gw min_ratio w)) = requests w @ new \<and>
          (\<forall>fg body. Post fg body \<in> set new \<longrightarrow> lots body = 1)"
    by (simp add: update_active_orders_def Let_def called_def)
  show "\<exists>new. requests (snd (check_done_orders gw strftime from_time w)) = requests w @ new \<and>
          (\<forall>fg body. Post fg body \<in> set new \<longrightarrow> lots body = 1)"
  proof (cases "strftime from_time")
    case (Inl e)
    then show ?thesis by (simp add: check_done_orders_def)
  next
    case (Inr since)
    obtain r w' where
      "answer_operations gw (payload (operations_get gw (calls w) since)) (called w) = (r, w')"
      by force
    from answer_operations_lots [OF this] this Inr
    show ?thesis
      by (simp add: check_done_orders_def Let_def called_def)
  qed
qed

text \<open>
  An open order for 7 lots is replaced by an order for 1 lot.
\<close>

theorem submitted_orders_one_lot_example:
  "order_requested_lots (ex_order ''1'' ''F'' Buy 99 7) = 7 \<and>
   (\<exists>body. requests (snd (update_active_orders
                      (ex_gateway 116 (\<lambda>n fg. 200) (\<lambda>n. [ex_order ''1'' ''F'' Buy 99 7]) [])
                      (1 / 16) w0)) = [Cancel ''1'', Post ''F'' body] \<and>
           lots body = 1)"
proof -
  let ?gw = "ex_gateway 116 (\<lambda>n fg. 200) (\<lambda>n. [ex_order ''1'' ''F'' Buy 99 7]) []"
  have run: "requests (snd (update_active_orders ?gw (1 / 16) w0)) =
               [Cancel ''1'', Post ''F'' \<lparr>lor_price = 201 / 2, lots = 1, operation = Buy\<rparr>]"
    by code_simp
  obtain new where n: "requests (snd (update_active_orders ?gw (1 / 16) w0)) = requests w0 @ new"
    "\<forall>fg body. Post fg body \<in> set new \<longrightarrow> lots body = 1"
    using submitted_orders_one_lot [of ?gw "1 / 16" w0] by blast
  have "new = [Cancel ''1'', Post ''F'' \<lparr>lor_price = 201 / 2, lots = 1, operation = Buy\<rparr>]"
    using n(1) run by (simp add: w0_def)
  then have "lots \<lparr>lor_price = 201 / 2, lots = 1, operation = Buy\<rparr> = 1"
    using n(2) by auto
  then show ?thesis using run by (simp add: ex_order_def)
qed

end
